theory Spec2Isabelle
  imports Main
begin

section \<open>Values, items and the cache directory\<close>

text \<open>
  The service of \<^verbatim>\<open>main.js\<close> keeps its catalog in one JSON document,
  \<^verbatim>\<open>inventory.json\<close>, inside the cache directory, next to the uploaded photo files.
  Strings are lists of code units below 256. A value read from a request body or stored in an
  item is \<^verbatim>\<open>null\<close> or a string; a body field that is absent
  (\<^verbatim>\<open>undefined\<close>) is \<open>None\<close>. Numbers, booleans, arrays and objects
  in a request body are outside the model.
\<close>

datatype jsval = Null | Str string

text \<open>JavaScript truthiness: \<^verbatim>\<open>undefined\<close>, \<^verbatim>\<open>null\<close> and
  the empty string are falsy.\<close>

fun truthy :: "jsval \<Rightarrow> bool" where
  "truthy Null = False"
| "truthy (Str s) = (s \<noteq> [])"

fun truthy_field :: "jsval option \<Rightarrow> bool" where
  "truthy_field None = False"
| "truthy_field (Some v) = truthy v"

text \<open>\<^verbatim>\<open>String.prototype.trim\<close>: white space and line terminators are removed at
  both ends. Among the code units below 256 these are 9 to 13, 32 and 160.\<close>

definition is_ws :: "char \<Rightarrow> bool" where
  "is_ws c = (c \<in> set [CHR 0x09, CHR 0x0A, CHR 0x0B, CHR 0x0C, CHR 0x0D, CHR 0x20, CHR 0xA0])"

definition trim :: "string \<Rightarrow> string" where
  "trim s = rev (dropWhile is_ws (rev (dropWhile is_ws s)))"

text \<open>\<^verbatim>\<open>String(n)\<close> for a non-negative integer such as \<^verbatim>\<open>Date.now()\<close>:
  its decimal digits.\<close>

definition digit_char :: "nat \<Rightarrow> char" where
  "digit_char d = ''0123456789'' ! d"

fun String_of :: "nat \<Rightarrow> string" where
  "String_of n = (if n < 10 then [digit_char n] else String_of (n div 10) @ [digit_char (n mod 10)])"

declare String_of.simps [simp del]

text \<open>An element of the inventory array, with the keys in the order the
  \<^verbatim>\<open>newItem\<close> literal of \<^verbatim>\<open>POST /register\<close> creates them. The
  name is always assigned from a body value that has passed a \<^verbatim>\<open>trim\<close> test, so it
  is a string.\<close>

record item =
  item_id :: string
  inventory_name :: string
  description :: jsval
  photoFilename :: jsval
  photoUrl :: jsval

text \<open>The cache directory: file name to content. \<^verbatim>\<open>CACHE_DIR\<close> holds the
  document and the photos side by side, so a path is the file's name inside the directory.\<close>

type_synonym fs = "string \<rightharpoonup> string"

definition INVENTORY_FILE :: string where
  "INVENTORY_FILE = ''inventory.json''"

definition existsSync :: "fs \<Rightarrow> string \<Rightarrow> bool" where
  "existsSync disk p = (disk p \<noteq> None)"

datatype js_error = ENOENT

text \<open>\<^verbatim>\<open>fsp.readFile\<close> rejects with \<^verbatim>\<open>ENOENT\<close> when the file does
  not exist. A file that exists is read: failures of the disk and of its permissions
  (\<^verbatim>\<open>EACCES\<close>, \<^verbatim>\<open>EISDIR\<close>, a full disk on a write) are outside the model.\<close>

definition readFile :: "fs \<Rightarrow> string \<Rightarrow> js_error + string" where
  "readFile disk p = (case disk p of None \<Rightarrow> Inl ENOENT | Some data \<Rightarrow> Inr data)"

text \<open>\<^verbatim>\<open>fsp.writeFile\<close> opens its target with flag \<^verbatim>\<open>w\<close>: the
  file is created or truncated, then the data is written. \<open>writeFile\<close> is the directory
  once the call has completed; \<open>writeFile_states\<close> lists the directories that can be seen
  while it runs (the target holding the first \<open>k\<close> code units of the data), the last of
  them being the completed write.\<close>

definition writeFile :: "fs \<Rightarrow> string \<Rightarrow> string \<Rightarrow> fs" where
  "writeFile disk p data = disk(p \<mapsto> data)"

definition writeFile_states :: "fs \<Rightarrow> string \<Rightarrow> string \<Rightarrow> fs list" where
  "writeFile_states disk p data = map (\<lambda>k. disk(p \<mapsto> take k data)) [0..<Suc (length data)]"

text \<open>\<^verbatim>\<open>fsp.unlink\<close> rejects with \<^verbatim>\<open>ENOENT\<close> when the file does
  not exist.\<close>

definition unlink :: "fs \<Rightarrow> string \<Rightarrow> js_error + fs" where
  "unlink disk p = (if existsSync disk p then Inr (disk(p := None)) else Inl ENOENT)"

section \<open>The inventory document\<close>

text \<open>\<^verbatim>\<open>JSON.parse\<close> and \<^verbatim>\<open>JSON.stringify(items, null, 2)\<close> belong
  to the platform. The functions of the program take them as a parameter \<open>J\<close>; a parse
  that throws (a \<^verbatim>\<open>SyntaxError\<close>) is \<open>None\<close>. A parse that returns gives an
  array of items: the program returns whatever \<^verbatim>\<open>JSON.parse\<close> gives without a check,
  and a document holding other JSON (\<^verbatim>\<open>null\<close>, an object, a number), which the
  program never writes, is outside the model.\<close>

record json_api =
  parse :: "string \<Rightarrow> item list option"
  stringify :: "item list \<Rightarrow> string"

text \<open>\<^verbatim>\<open>loadInventory\<close>: any error of the read or of the parse is caught and
  the empty array returned.\<close>

definition loadInventory :: "json_api \<Rightarrow> fs \<Rightarrow> item list" where
  "loadInventory J disk =
     (case readFile disk INVENTORY_FILE of
        Inl err \<Rightarrow> []
      | Inr data \<Rightarrow> (case parse J data of None \<Rightarrow> [] | Some items \<Rightarrow> items))"

definition saveInventory :: "json_api \<Rightarrow> item list \<Rightarrow> fs \<Rightarrow> fs" where
  "saveInventory J items disk = writeFile disk INVENTORY_FILE (stringify J items)"

definition saveInventory_states :: "json_api \<Rightarrow> item list \<Rightarrow> fs \<Rightarrow> fs list" where
  "saveInventory_states J items disk = writeFile_states disk INVENTORY_FILE (stringify J items)"

definition findItem :: "item list \<Rightarrow> string \<Rightarrow> item option" where
  "findItem items i = find (\<lambda>item. item_id item = i) items"

text \<open>The object \<^verbatim>\<open>findItem\<close> returns is the array's own element, so an
  assignment to one of its fields changes the array. \<open>assign items i item'\<close> is the array
  once the first element with id \<open>i\<close> has become \<open>item'\<close>.\<close>

fun assign :: "item list \<Rightarrow> string \<Rightarrow> item \<Rightarrow> item list" where
  "assign [] i item' = []"
| "assign (x # xs) i item' = (if item_id x = i then item' # xs else x # assign xs i item')"

text \<open>\<^verbatim>\<open>Array.prototype.findIndex\<close>; \<open>None\<close> stands for \<^verbatim>\<open>-1\<close>.\<close>

fun findIndex :: "('a \<Rightarrow> bool) \<Rightarrow> 'a list \<Rightarrow> nat option" where
  "findIndex P [] = None"
| "findIndex P (x # xs) = (if P x then Some 0 else map_option Suc (findIndex P xs))"

section \<open>Requests, uploads and responses\<close>

text \<open>\<^verbatim>\<open>req.file\<close> as multer's disk storage leaves it: the generated file name and
  the uploaded bytes; \<^verbatim>\<open>req.file.path\<close> is that name inside the cache directory.\<close>

record upload =
  filename :: string
  content :: string

record request =
  req_inventory_name :: "jsval option"
  req_description :: "jsval option"
  req_file :: "upload option"

text \<open>The \<^verbatim>\<open>filename\<close> callback of the storage: \<open>now\<close> is
  \<^verbatim>\<open>Date.now()\<close>, \<open>rnd\<close> is \<^verbatim>\<open>Math.round(Math.random() * 1e9)\<close>
  and \<open>ext\<close> is \<^verbatim>\<open>path.extname(file.originalname)\<close>.\<close>

definition storage_filename :: "nat \<Rightarrow> nat \<Rightarrow> string \<Rightarrow> string" where
  "storage_filename now rnd ext =
     String_of now @ ''-'' @ String_of rnd @ (if ext = [] then ''.jpg'' else ext)"

text \<open>\<^verbatim>\<open>upload.single("photo")\<close> runs before the handler and has written the
  uploaded file into the cache directory when the handler starts.\<close>

definition upload_single :: "upload option \<Rightarrow> fs \<Rightarrow> fs" where
  "upload_single file disk =
     (case file of None \<Rightarrow> disk | Some f \<Rightarrow> writeFile disk (filename f) (content f))"

datatype body =
    ItemBody item
  | ErrorBody string
  | DeletedBody string
  | FileBody string string

text \<open>A handler answers with a status and a body, or its promise is rejected.
  \<open>DeletedBody i\<close> is \<^verbatim>\<open>{ message: "Deleted", id }\<close>; \<open>FileBody t bytes\<close>
  is \<^verbatim>\<open>sendFile\<close> under the \<^verbatim>\<open>Content-Type\<close> header \<open>t\<close>.\<close>

datatype outcome = Response nat body | Rejected js_error

section \<open>The handlers\<close>

subsection \<open>\<^verbatim>\<open>POST /register\<close>\<close>

text \<open>\<^verbatim>\<open>description || ""\<close>.\<close>

definition or_empty :: "jsval option \<Rightarrow> jsval" where
  "or_empty v = (if truthy_field v then (case v of Some w \<Rightarrow> w | None \<Rightarrow> Str []) else Str [])"

definition photo_url :: "string \<Rightarrow> string" where
  "photo_url i = ''/inventory/'' @ i @ ''/photo''"

definition newItem :: "string \<Rightarrow> string \<Rightarrow> jsval option \<Rightarrow> upload option \<Rightarrow> item" where
  "newItem newId name desc file =
     \<lparr> item_id = newId,
       inventory_name = name,
       description = or_empty desc,
       photoFilename = (case file of None \<Rightarrow> Null | Some f \<Rightarrow> Str (filename f)),
       photoUrl = (case file of None \<Rightarrow> Null | Some f \<Rightarrow> Str (photo_url newId)) \<rparr>"

definition name_required :: outcome where
  "name_required = Response 400 (ErrorBody ''inventory_name is required'')"

text \<open>The handler, given \<^verbatim>\<open>Date.now()\<close> as \<open>now\<close>. The guard is
  \<^verbatim>\<open>!inventory_name || inventory_name.trim() === ""\<close>.\<close>

definition register_handler :: "json_api \<Rightarrow> nat \<Rightarrow> request \<Rightarrow> fs \<Rightarrow> outcome \<times> fs" where
  "register_handler J now req disk =
     (case req_inventory_name req of
        Some (Str name) \<Rightarrow>
          if \<not> truthy (Str name) \<or> trim name = [] then (name_required, disk)
          else
            let items = loadInventory J disk;
                newId = String_of now;
                new = newItem newId name (req_description req) (req_file req)
            in (Response 201 (ItemBody new), saveInventory J (items @ [new]) disk)
      | _ \<Rightarrow> (name_required, disk))"

text \<open>The whole request: the upload middleware, then the handler.\<close>

definition post_register :: "json_api \<Rightarrow> nat \<Rightarrow> request \<Rightarrow> fs \<Rightarrow> outcome \<times> fs" where
  "post_register J now req disk = register_handler J now req (upload_single (req_file req) disk)"

subsection \<open>\<^verbatim>\<open>PUT /inventory/:id\<close>\<close>

definition item_not_found :: outcome where
  "item_not_found = Response 404 (ErrorBody ''Item not found'')"

text \<open>\<^verbatim>\<open>if (inventory_name?.trim()) item.inventory_name = inventory_name\<close> and
  \<^verbatim>\<open>if (description !== undefined) item.description = description\<close>.\<close>

definition set_name :: "jsval option \<Rightarrow> item \<Rightarrow> item" where
  "set_name v item =
     (case v of
        Some (Str s) \<Rightarrow> if trim s \<noteq> [] then item\<lparr>inventory_name := s\<rparr> else item
      | _ \<Rightarrow> item)"

definition set_description :: "jsval option \<Rightarrow> item \<Rightarrow> item" where
  "set_description v item = (case v of None \<Rightarrow> item | Some d \<Rightarrow> item\<lparr>description := d\<rparr>)"

definition update_handler ::
  "json_api \<Rightarrow> string \<Rightarrow> jsval option \<Rightarrow> jsval option \<Rightarrow> fs \<Rightarrow> outcome \<times> fs" where
  "update_handler J i name desc disk =
     (let items = loadInventory J disk in
      case findItem items i of
        None \<Rightarrow> (item_not_found, disk)
      | Some item \<Rightarrow>
          let item' = set_description desc (set_name name item)
          in (Response 200 (ItemBody item'), saveInventory J (assign items i item') disk))"

subsection \<open>\<^verbatim>\<open>DELETE /inventory/:id\<close>\<close>

text \<open>\<^verbatim>\<open>if (fs.existsSync(p)) await fsp.unlink(p)\<close> for a photo reference that is
  truthy; under its guard the \<^verbatim>\<open>unlink\<close> removes the file.\<close>

definition unlink_existing :: "fs \<Rightarrow> jsval \<Rightarrow> fs" where
  "unlink_existing disk ref =
     (case ref of
        Null \<Rightarrow> disk
      | Str p \<Rightarrow> if truthy (Str p) \<and> existsSync disk p then disk(p := None) else disk)"

definition delete_handler :: "json_api \<Rightarrow> string \<Rightarrow> fs \<Rightarrow> outcome \<times> fs" where
  "delete_handler J i disk =
     (let items = loadInventory J disk in
      case findIndex (\<lambda>it. item_id it = i) items of
        None \<Rightarrow> (item_not_found, disk)
      | Some index \<Rightarrow>
          let deleted = items ! index;
              items' = take index items @ drop (Suc index) items;
              disk' = unlink_existing disk (photoFilename deleted)
          in (Response 200 (DeletedBody i), saveInventory J items' disk'))"

subsection \<open>\<^verbatim>\<open>GET /inventory/:id/photo\<close>\<close>

definition photo_not_found :: outcome where
  "photo_not_found = Response 404 (ErrorBody ''Photo not found'')"

definition photo_file_not_found :: outcome where
  "photo_file_not_found = Response 404 (ErrorBody ''Photo file not found'')"

text \<open>\<^verbatim>\<open>!item?.photoFilename\<close> covers the missing item, the \<^verbatim>\<open>null\<close>
  reference and the empty one; a file that \<^verbatim>\<open>existsSync\<close> does not find is the
  second answer.\<close>

definition fetch_photo_handler :: "json_api \<Rightarrow> string \<Rightarrow> fs \<Rightarrow> outcome" where
  "fetch_photo_handler J i disk =
     (let items = loadInventory J disk in
      case findItem items i of
        None \<Rightarrow> photo_not_found
      | Some item \<Rightarrow>
          (case photoFilename item of
             Null \<Rightarrow> photo_not_found
           | Str p \<Rightarrow>
               if \<not> truthy (Str p) then photo_not_found
               else (case disk p of
                       None \<Rightarrow> photo_file_not_found
                     | Some bytes \<Rightarrow> Response 200 (FileBody ''image/jpeg'' bytes))))"

subsection \<open>\<^verbatim>\<open>PUT /inventory/:id/photo\<close>\<close>

text \<open>The handler starts after the upload has been stored. In the branch of the unknown id
  \<^verbatim>\<open>fsp.unlink(req.file.path)\<close> is not guarded, so a missing file rejects the
  promise.\<close>

definition replace_photo_handler ::
  "json_api \<Rightarrow> string \<Rightarrow> upload option \<Rightarrow> fs \<Rightarrow> outcome \<times> fs" where
  "replace_photo_handler J i file disk =
     (let items = loadInventory J disk in
      case findItem items i of
        None \<Rightarrow>
          (case file of
             None \<Rightarrow> (item_not_found, disk)
           | Some f \<Rightarrow>
               (case unlink disk (filename f) of
                  Inl err \<Rightarrow> (Rejected err, disk)
                | Inr disk' \<Rightarrow> (item_not_found, disk')))
      | Some item \<Rightarrow>
          let disk' = unlink_existing disk (photoFilename item);
              item' = (case file of
                         None \<Rightarrow> item
                       | Some f \<Rightarrow> item\<lparr>photoFilename := Str (filename f),
                                         photoUrl := Str (photo_url i)\<rparr>)
          in (Response 200 (ItemBody item'), saveInventory J (assign items i item') disk'))"

definition put_photo :: "json_api \<Rightarrow> string \<Rightarrow> upload option \<Rightarrow> fs \<Rightarrow> outcome \<times> fs" where
  "put_photo J i file disk = replace_photo_handler J i file (upload_single file disk)"

section \<open>Register requests that overlap\<close>

text \<open>The register handler gives up control at its two \<^verbatim>\<open>await\<close>s. Between
  them it runs undisturbed, so a request passes through two segments: up to the completed
  \<^verbatim>\<open>loadInventory\<close> (the snapshot of the array is taken), and from the computation of
  \<^verbatim>\<open>newId\<close> to the completed \<^verbatim>\<open>saveInventory\<close>. Nothing in the program
  keeps the segments of different requests apart.\<close>

datatype task = Start request | Loaded request string "item list" | Done outcome

fun register_step :: "json_api \<Rightarrow> nat \<Rightarrow> task \<Rightarrow> fs \<Rightarrow> task \<times> fs" where
  "register_step J now (Start req) disk =
     (case req_inventory_name req of
        Some (Str name) \<Rightarrow>
          if \<not> truthy (Str name) \<or> trim name = [] then (Done name_required, disk)
          else (Loaded req name (loadInventory J disk), disk)
      | _ \<Rightarrow> (Done name_required, disk))"
| "register_step J now (Loaded req name items) disk =
     (let newId = String_of now;
          new = newItem newId name (req_description req) (req_file req)
      in (Done (Response 201 (ItemBody new)), saveInventory J (items @ [new]) disk))"
| "register_step J now (Done r) disk = (Done r, disk)"

text \<open>A schedule names, step by step, the request that runs its next segment and the value
  \<^verbatim>\<open>Date.now()\<close> has then.\<close>

fun run :: "json_api \<Rightarrow> (nat \<times> nat) list \<Rightarrow> task list \<times> fs \<Rightarrow> task list \<times> fs" where
  "run J [] st = st"
| "run J ((i, now) # sched) (tasks, disk) =
     (if i < length tasks
      then (case register_step J now (tasks ! i) disk of
              (t', disk') \<Rightarrow> run J sched (tasks[i := t'], disk'))
      else run J sched (tasks, disk))"

text \<open>Requests handled one after the other, each from its upload to its response.\<close>

fun register_all :: "json_api \<Rightarrow> (nat \<times> request) list \<Rightarrow> fs \<Rightarrow> fs" where
  "register_all J [] disk = disk"
| "register_all J ((now, req) # rest) disk = register_all J rest (snd (post_register J now req disk))"

section \<open>A codec for inventory documents\<close>

text \<open>What the platform's codec is assumed to do: a document written by
  \<^verbatim>\<open>JSON.stringify\<close> is read back by \<^verbatim>\<open>JSON.parse\<close> as the array that was
  written.\<close>

definition roundtrip :: "json_api \<Rightarrow> bool" where
  "roundtrip J = (\<forall>items. parse J (stringify J items) = Some items)"

text \<open>A concrete codec, to run the program on concrete directories: the text
  \<^verbatim>\<open>JSON.stringify(items, null, 2)\<close> produces for an array of items (two spaces of
  indentation, one member per line, the escapes of \<^verbatim>\<open>QuoteJSONString\<close>), and a parser
  that accepts documents in this layout and no other text. It agrees with
  \<^verbatim>\<open>JSON.parse\<close> on the documents the program writes and on the texts used below on
  which \<^verbatim>\<open>JSON.parse\<close> throws; the general theorems hold for every codec \<open>J\<close>.\<close>

abbreviation DQ :: char where "DQ \<equiv> CHR 0x22"
abbreviation BSL :: char where "BSL \<equiv> CHR 0x5C"
abbreviation NL :: char where "NL \<equiv> CHR 0x0A"

definition hex_char :: "nat \<Rightarrow> char" where
  "hex_char d = ''0123456789abcdef'' ! d"

definition escape :: "char \<Rightarrow> string" where
  "escape c =
     (if c = DQ then [BSL, DQ]
      else if c = BSL then [BSL, BSL]
      else if c = CHR 0x08 then [BSL, CHR ''b'']
      else if c = CHR 0x09 then [BSL, CHR ''t'']
      else if c = CHR 0x0A then [BSL, CHR ''n'']
      else if c = CHR 0x0C then [BSL, CHR ''f'']
      else if c = CHR 0x0D then [BSL, CHR ''r'']
      else if of_char c < (32::nat)
        then [BSL, CHR ''u'', CHR ''0'', CHR ''0'',
              hex_char (of_char c div 16), hex_char (of_char c mod 16)]
      else [c])"

definition quote :: "string \<Rightarrow> string" where
  "quote s = DQ # concat (map escape s) @ [DQ]"

definition value_text :: "jsval \<Rightarrow> string" where
  "value_text v = (case v of Null \<Rightarrow> ''null'' | Str s \<Rightarrow> quote s)"

definition member_text :: "string \<Rightarrow> string \<Rightarrow> string" where
  "member_text k v = ''    '' @ quote k @ '': '' @ v"

definition item_text :: "item \<Rightarrow> string" where
  "item_text it =
     ''  {'' @ [NL] @
     member_text ''id'' (quote (item_id it)) @ '','' @ [NL] @
     member_text ''inventory_name'' (quote (inventory_name it)) @ '','' @ [NL] @
     member_text ''description'' (value_text (description it)) @ '','' @ [NL] @
     member_text ''photoFilename'' (value_text (photoFilename it)) @ '','' @ [NL] @
     member_text ''photoUrl'' (value_text (photoUrl it)) @ [NL] @
     ''  }''"

fun join :: "string \<Rightarrow> string list \<Rightarrow> string" where
  "join sep [] = []"
| "join sep [x] = x"
| "join sep (x # y # ys) = x @ sep @ join sep (y # ys)"

definition JSON_stringify :: "item list \<Rightarrow> string" where
  "JSON_stringify items =
     (if items = [] then ''[]''
      else ''['' @ [NL] @ join ('','' @ [NL]) (map item_text items) @ [NL] @ '']'')"


definition hex_val :: "char \<Rightarrow> nat option" where
  "hex_val c = findIndex (\<lambda>x. x = c) ''0123456789abcdef''"

definition unescape :: "char \<Rightarrow> char option" where
  "unescape e =
     (if e = DQ \<or> e = BSL \<or> e = CHR ''/'' then Some e
      else if e = CHR ''b'' then Some (CHR 0x08)
      else if e = CHR ''t'' then Some (CHR 0x09)
      else if e = CHR ''n'' then Some (CHR 0x0A)
      else if e = CHR ''f'' then Some (CHR 0x0C)
      else if e = CHR ''r'' then Some (CHR 0x0D)
      else None)"

definition push :: "char \<Rightarrow> (string \<times> string) option \<Rightarrow> (string \<times> string) option" where
  "push c r = map_option (\<lambda>(s, rest). (c # s, rest)) r"

fun unquote :: "string \<Rightarrow> (string \<times> string) option" where
  "unquote [] = None"
| "unquote (c # cs) =
     (if c = DQ then Some ([], cs)
      else if c = BSL then
        (case cs of
           [] \<Rightarrow> None
         | e # cs' \<Rightarrow>
             if e = CHR ''u'' then
               (case cs' of
                  a # b # h # l # cs'' \<Rightarrow>
                    (case (hex_val h, hex_val l) of
                       (Some x, Some y) \<Rightarrow>
                         if a = CHR ''0'' \<and> b = CHR ''0'' then push (char_of (16 * x + y)) (unquote cs'')
                         else None
                     | _ \<Rightarrow> None)
                | _ \<Rightarrow> None)
             else (case unescape e of None \<Rightarrow> None | Some d \<Rightarrow> push d (unquote cs')))
      else if of_char c < (32::nat) then None
      else push c (unquote cs))"

fun expect :: "string \<Rightarrow> string \<Rightarrow> string option" where
  "expect [] s = Some s"
| "expect (c # cs) [] = None"
| "expect (c # cs) (d # ds) = (if c = d then expect cs ds else None)"

definition parse_string :: "string \<Rightarrow> (string \<times> string) option" where
  "parse_string s = Option.bind (expect [DQ] s) unquote"

definition parse_value :: "string \<Rightarrow> (jsval \<times> string) option" where
  "parse_value s =
     (case expect ''null'' s of
        Some rest \<Rightarrow> Some (Null, rest)
      | None \<Rightarrow> map_option (\<lambda>(x, rest). (Str x, rest)) (parse_string s))"

definition parse_member :: "string \<Rightarrow> (string \<Rightarrow> ('a \<times> string) option) \<Rightarrow> string \<Rightarrow> ('a \<times> string) option" where
  "parse_member k p s = Option.bind (expect (member_text k []) s) p"

definition parse_item :: "string \<Rightarrow> (item \<times> string) option" where
  "parse_item s0 =
     Option.bind (expect (''  {'' @ [NL]) s0) (\<lambda>s1.
     Option.bind (parse_member ''id'' parse_string s1) (\<lambda>(i, s2).
     Option.bind (expect ('','' @ [NL]) s2) (\<lambda>s3.
     Option.bind (parse_member ''inventory_name'' parse_string s3) (\<lambda>(n, s4).
     Option.bind (expect ('','' @ [NL]) s4) (\<lambda>s5.
     Option.bind (parse_member ''description'' parse_value s5) (\<lambda>(d, s6).
     Option.bind (expect ('','' @ [NL]) s6) (\<lambda>s7.
     Option.bind (parse_member ''photoFilename'' parse_value s7) (\<lambda>(f, s8).
     Option.bind (expect ('','' @ [NL]) s8) (\<lambda>s9.
     Option.bind (parse_member ''photoUrl'' parse_value s9) (\<lambda>(u, s10).
     Option.bind (expect ([NL] @ ''  }'') s10) (\<lambda>s11.
       Some (\<lparr> item_id = i, inventory_name = n, description = d,
               photoFilename = f, photoUrl = u \<rparr>, s11))))))))))))"

fun parse_items :: "nat \<Rightarrow> string \<Rightarrow> item list option" where
  "parse_items 0 s = None"
| "parse_items (Suc fuel) s =
     (case parse_item s of
        None \<Rightarrow> None
      | Some (it, rest) \<Rightarrow>
          if rest = [NL] @ '']'' then Some [it]
          else (case expect ('','' @ [NL]) rest of
                  None \<Rightarrow> None
                | Some rest' \<Rightarrow> map_option (Cons it) (parse_items fuel rest')))"

definition JSON_parse :: "string \<Rightarrow> item list option" where
  "JSON_parse s =
     (if s = ''[]'' then Some []
      else (case expect (''['' @ [NL]) s of
              None \<Rightarrow> None
            | Some rest \<Rightarrow> parse_items (length rest) rest))"


definition JSON :: json_api where
  "JSON = \<lparr> parse = JSON_parse, stringify = JSON_stringify \<rparr>"

section \<open>Example requests\<close>

definition drill_upload :: upload where
  "drill_upload = \<lparr> filename = storage_filename 1700000000000 123456789 ''.png'',
                     content = ''drill-photo-bytes'' \<rparr>"

definition drill_req :: request where
  "drill_req = \<lparr> req_inventory_name = Some (Str ''Drill''),
                  req_description = Some (Str []),
                  req_file = Some drill_upload \<rparr>"

definition hammer_req :: request where
  "hammer_req = \<lparr> req_inventory_name = Some (Str ''Hammer''),
                   req_description = Some (Str ''claw hammer''),
                   req_file = None \<rparr>"

definition blank_req :: request where
  "blank_req = \<lparr> req_inventory_name = Some (Str ''   ''),
                  req_description = None,
                  req_file = None \<rparr>"

definition drill :: item where
  "drill = \<lparr> item_id = ''1700000000005'',
              inventory_name = ''Drill'',
              description = Str [],
              photoFilename = Str ''1700000000000-123456789.png'',
              photoUrl = Str ''/inventory/1700000000005/photo'' \<rparr>"

definition hammer :: item where
  "hammer = \<lparr> item_id = ''1700000000007'',
               inventory_name = ''Hammer'',
               description = Str ''claw hammer'',
               photoFilename = Null,
               photoUrl = Null \<rparr>"

definition nails_req :: request where
  "nails_req = \<lparr> req_inventory_name = Some (Str ''Nails''),
                  req_description = None,
                  req_file = None \<rparr>"

definition nails :: item where
  "nails = \<lparr> item_id = ''1700000000009'',
              inventory_name = ''Nails'',
              description = Str [],
              photoFilename = Null,
              photoUrl = Null \<rparr>"

text \<open>The cache directory after the drill has been registered with its photo.\<close>

definition drill_disk :: fs where
  "drill_disk = [''1700000000000-123456789.png'' \<mapsto> ''drill-photo-bytes'',
                 INVENTORY_FILE \<mapsto> stringify JSON [drill]]"

text \<open>A cache directory whose document holds the two items.\<close>

definition two_items_disk :: fs where
  "two_items_disk = [INVENTORY_FILE \<mapsto> stringify JSON [drill, hammer]]"

section \<open>Properties of the string functions\<close>

lemma trim_empty_iff: "trim s = [] \<longleftrightarrow> list_all is_ws s"
proof
  assume "trim s = []"
  then have a: "\<forall>c\<in>set (dropWhile is_ws s). is_ws c"
    by (simp add: trim_def)
  show "list_all is_ws s"
  proof (cases "dropWhile is_ws s")
    case Nil
    then show ?thesis by (simp add: list_all_iff)
  next
    case (Cons c cs)
    then have "\<not> is_ws c" using hd_dropWhile [of is_ws s] by simp
    moreover have "is_ws c" using a Cons by simp
    ultimately show ?thesis by simp
  qed
next
  assume "list_all is_ws s"
  then have h: "dropWhile is_ws s = []"
    by (simp add: list_all_iff)
  show "trim s = []"
    unfolding trim_def h by simp
qed

lemma String_of_nonempty: "String_of n \<noteq> []"
  by (subst String_of.simps) simp

lemma digit_char_inj: "a < 10 \<Longrightarrow> b < 10 \<Longrightarrow> digit_char a = digit_char b \<Longrightarrow> a = b"
  by (auto simp add: numeral_eq_Suc less_Suc_eq digit_char_def)

lemma String_of_inj: "String_of n = String_of m \<Longrightarrow> n = m"
proof (induction n arbitrary: m rule: String_of.induct)
  case (1 n)
  show ?case
  proof (cases "n < 10")
    case True
    have m: "m < 10"
    proof (rule ccontr)
      assume "\<not> m < 10"
      then have "String_of m = String_of (m div 10) @ [digit_char (m mod 10)]"
        by (subst String_of.simps) simp
      moreover have "String_of n = [digit_char n]"
        using True by (subst String_of.simps) simp
      ultimately show False using "1.prems" String_of_nonempty [of "m div 10"] by simp
    qed
    have "String_of n = [digit_char n]" "String_of m = [digit_char m]"
      using True m by (subst String_of.simps, simp)+
    then show ?thesis using "1.prems" True m digit_char_inj by simp
  next
    case False
    then have n: "String_of n = String_of (n div 10) @ [digit_char (n mod 10)]"
      by (subst String_of.simps) simp
    have m: "\<not> m < 10"
    proof
      assume "m < 10"
      then have "String_of m = [digit_char m]" by (subst String_of.simps) simp
      then show False using "1.prems" n String_of_nonempty [of "n div 10"] by simp
    qed
    then have "String_of m = String_of (m div 10) @ [digit_char (m mod 10)]"
      by (subst String_of.simps) simp
    then have a: "String_of (n div 10) = String_of (m div 10)"
      and b: "digit_char (n mod 10) = digit_char (m mod 10)"
      using "1.prems" n by simp_all
    have "n div 10 = m div 10" using "1.IH" [OF False a] .
    moreover have "n mod 10 = m mod 10" using b digit_char_inj [of "n mod 10" "m mod 10"] by simp
    ultimately show ?thesis by (metis div_mult_mod_eq)
  qed
qed

lemma is_digit_hd_String_of: "hd (String_of n) \<in> set ''0123456789''"
proof (induction n rule: String_of.induct)
  case (1 n)
  show ?case
  proof (cases "n < 10")
    case True
    then have "String_of n = [digit_char n]" by (subst String_of.simps) simp
    moreover have "digit_char n \<in> set ''0123456789''"
      using True unfolding digit_char_def by (intro nth_mem) simp
    ultimately show ?thesis by simp
  next
    case False
    then have "String_of n = String_of (n div 10) @ [digit_char (n mod 10)]"
      by (subst String_of.simps) simp
    then show ?thesis using "1.IH" [OF False] String_of_nonempty [of "n div 10"] by simp
  qed
qed

lemma storage_filename_not_document: "storage_filename now rnd ext \<noteq> INVENTORY_FILE"
proof
  assume "storage_filename now rnd ext = INVENTORY_FILE"
  then have "hd (storage_filename now rnd ext) = hd INVENTORY_FILE"
    by simp
  then have "hd (String_of now) = CHR ''i''"
    by (simp add: storage_filename_def INVENTORY_FILE_def hd_append String_of_nonempty)
  then show False using is_digit_hd_String_of [of now] by simp
qed

section \<open>The concrete codec reads back what it writes\<close>

lemma hex_val_hex_char: "d < 16 \<Longrightarrow> hex_val (hex_char d) = Some d"
  by (auto simp add: numeral_eq_Suc less_Suc_eq hex_val_def hex_char_def)

lemma expect_append: "expect lit (lit @ r) = Some r"
  by (induction lit) simp_all

lemma unquote_control:
  assumes "of_char c < (32::nat)"
  shows "unquote (BSL # CHR ''u'' # CHR ''0'' # CHR ''0'' #
           hex_char (of_char c div 16) # hex_char (of_char c mod 16) # r) = push c (unquote r)"
proof -
  have a: "hex_val (hex_char (of_char c div 16)) = Some (of_char c div 16)"
    using assms by (intro hex_val_hex_char) simp
  have b: "hex_val (hex_char (of_char c mod 16)) = Some (of_char c mod 16)"
    by (intro hex_val_hex_char) simp
  show ?thesis by (simp add: a b)
qed

lemma unquote_escape: "unquote (escape c @ r) = push c (unquote r)"
proof (cases "of_char c < (32::nat)")
  case True
  then show ?thesis
    using unquote_control [OF True, of r]
    by (auto simp add: escape_def unescape_def)
next
  case False
  then show ?thesis
    by (auto simp add: escape_def unescape_def)
qed

lemma unquote_quoted: "unquote (concat (map escape s) @ DQ # r) = Some (s, r)"
  by (induction s) (simp_all add: unquote_escape push_def)

lemma parse_string_quote: "parse_string (quote s @ r) = Some (s, r)"
  by (simp add: parse_string_def quote_def unquote_quoted)

lemma expect_null_quote: "expect ''null'' (quote s @ r) = None"
  by (simp add: quote_def)

lemma parse_value_text: "parse_value (value_text v @ r) = Some (v, r)"
  by (cases v) (simp_all add: parse_value_def value_text_def parse_string_quote expect_null_quote)

lemma parse_member_text:
  assumes "\<And>r. p (t @ r) = Some (x, r)"
  shows "parse_member k p (member_text k t @ r) = Some (x, r)"
proof -
  have e: "member_text k t @ r = member_text k [] @ t @ r"
    by (simp add: member_text_def)
  show ?thesis
    unfolding parse_member_def e expect_append by (simp add: assms)
qed

lemma parse_item_text: "parse_item (item_text it @ r) = Some (it, r)"
  by (simp add: parse_item_def item_text_def parse_member_text parse_string_quote parse_value_text
        expect_append)

lemma parse_items_text:
  "xs \<noteq> [] \<Longrightarrow> length xs \<le> fuel \<Longrightarrow>
   parse_items fuel (join ('','' @ [NL]) (map item_text xs) @ [NL] @ '']'') = Some xs"
proof (induction xs arbitrary: fuel)
  case Nil
  then show ?case by simp
next
  case (Cons x xs)
  then obtain n where fuel: "fuel = Suc n" and n: "length xs \<le> n"
    by (cases fuel) auto
  show ?case
  proof (cases xs)
    case Nil
    then show ?thesis
      using parse_item_text [of x "[NL] @ '']''"] by (simp add: fuel)
  next
    case (Cons y ys)
    have "parse_items n (join ('','' @ [NL]) (map item_text xs) @ [NL] @ '']'') = Some xs"
      using Cons.IH [of n] n Cons by simp
    then show ?thesis
      using parse_item_text [of x "'','' @ [NL] @ join ('','' @ [NL]) (map item_text xs) @ [NL] @ '']''"]
      by (simp add: fuel Cons)
  qed
qed

lemma item_text_nonempty: "item_text it \<noteq> []"
  by (simp add: item_text_def)

lemma length_join: "length xs \<le> length (join sep (map item_text xs))"
proof (induction xs rule: induct_list012)
  case 1
  then show ?case by simp
next
  case (2 x)
  then show ?case using item_text_nonempty [of x] by (cases "item_text x") simp_all
next
  case (3 x y zs)
  then show ?case using item_text_nonempty [of x] by (cases "item_text x") simp_all
qed

lemma JSON_parse_stringify: "JSON_parse (JSON_stringify xs) = Some xs"
proof (cases xs)
  case Nil
  then show ?thesis by (simp add: JSON_parse_def JSON_stringify_def)
next
  case (Cons y ys)
  let ?rest = "join ('','' @ [NL]) (map item_text xs) @ [NL] @ '']''"
  have "length xs \<le> length ?rest"
    using length_join [of xs "'','' @ [NL]"] by simp
  then have "parse_items (length ?rest) ?rest = Some xs"
    using parse_items_text [of xs "length ?rest"] Cons by simp
  then show ?thesis
    using Cons by (simp add: JSON_parse_def JSON_stringify_def)
qed

lemma roundtrip_JSON: "roundtrip JSON"
  by (simp add: roundtrip_def JSON_def JSON_parse_stringify)

section \<open>Loading and saving\<close>

lemma loadInventory_absent: "disk INVENTORY_FILE = None \<Longrightarrow> loadInventory J disk = []"
  by (simp add: loadInventory_def readFile_def)

lemma loadInventory_present:
  "disk INVENTORY_FILE = Some data \<Longrightarrow>
   loadInventory J disk = (case parse J data of None \<Rightarrow> [] | Some items \<Rightarrow> items)"
  by (simp add: loadInventory_def readFile_def)

lemma saveInventory_other: "p \<noteq> INVENTORY_FILE \<Longrightarrow> saveInventory J items disk p = disk p"
  by (simp add: saveInventory_def writeFile_def)

lemma load_after_save: "roundtrip J \<Longrightarrow> loadInventory J (saveInventory J items disk) = items"
  by (simp add: loadInventory_def readFile_def saveInventory_def writeFile_def roundtrip_def)

section \<open>Registering\<close>

lemma trim_Nil: "trim [] = []"
  by (simp add: trim_def)

lemma register_handler_accepts:
  assumes "req_inventory_name req = Some (Str name)" and "trim name \<noteq> []"
  shows "register_handler J now req disk =
    (Response 201 (ItemBody (newItem (String_of now) name (req_description req) (req_file req))),
     saveInventory J
       (loadInventory J disk @ [newItem (String_of now) name (req_description req) (req_file req)])
       disk)"
proof -
  have "name \<noteq> []" using assms(2) trim_Nil by auto
  then show ?thesis using assms by (simp add: register_handler_def Let_def)
qed

lemma register_handler_rejects:
  "(fst (register_handler J now req disk) = name_required) =
   (case req_inventory_name req of Some (Str name) \<Rightarrow> trim name = [] | _ \<Rightarrow> True)"
  by (auto simp add: register_handler_def Let_def name_required_def trim_Nil
      split: option.splits jsval.splits)

lemma hammer_eq: "newItem (String_of 1700000000007) ''Hammer'' (Some (Str ''claw hammer'')) None = hammer"
  by (simp add: newItem_def hammer_def or_empty_def String_of.simps digit_char_def)

lemma trim_Hammer: "trim ''Hammer'' = ''Hammer''"
  by (simp add: trim_def is_ws_def)

section \<open>Claims about the document\<close>

text \<open>
  Claim C2 says that a document that exists but cannot be parsed is not loaded as the empty
  collection, that the failure is surfaced and that no further mutation is accepted. The
  \<^verbatim>\<open>catch\<close> of \<^verbatim>\<open>loadInventory\<close> makes no difference between an absent
  document and one on whose text \<^verbatim>\<open>JSON.parse\<close> throws. As amended:
  \<open>loadInventory\<close> returns the empty collection when the document is absent, and also
  when it exists, is read, and \<^verbatim>\<open>JSON.parse\<close> throws on its text; no fault is raised,
  and on a disk that accepts the write a following register request with a name that is not
  blank is accepted with status 201, its save writing a collection that holds the new item
  alone. Nothing is said of a document that cannot be read, nor of one that holds JSON other
  than an array of items.
\<close>

theorem loadInventory_fails_open:
  assumes "disk INVENTORY_FILE = None \<or>
           (\<exists>data. disk INVENTORY_FILE = Some data \<and> parse J data = None)"
  shows "loadInventory J disk = [] \<and>
         (\<forall>now req name.
            req_inventory_name req = Some (Str name) \<and> trim name \<noteq> [] \<longrightarrow>
            register_handler J now req disk =
              (Response 201 (ItemBody (newItem (String_of now) name (req_description req) (req_file req))),
               saveInventory J [newItem (String_of now) name (req_description req) (req_file req)] disk))"
proof -
  have l: "loadInventory J disk = []"
    using assms by (auto simp add: loadInventory_def readFile_def)
  show ?thesis
    using l register_handler_accepts [of _ _ J _ disk] by simp
qed

text \<open>The amended claim at a fresh directory and at a directory whose document is the text
  \<^verbatim>\<open>[{\<close>, on which \<^verbatim>\<open>JSON.parse\<close> throws.\<close>

theorem loadInventory_fails_open_witness:
  "(Map.empty :: fs) INVENTORY_FILE = None \<and>
   loadInventory JSON Map.empty = [] \<and>
   register_handler JSON 1700000000007 hammer_req Map.empty =
     (Response 201 (ItemBody hammer), saveInventory JSON [hammer] Map.empty) \<and>
   [INVENTORY_FILE \<mapsto> ''[{''] INVENTORY_FILE = Some ''[{'' \<and>
   parse JSON ''[{'' = None \<and>
   loadInventory JSON [INVENTORY_FILE \<mapsto> ''[{''] = [] \<and>
   register_handler JSON 1700000000007 hammer_req [INVENTORY_FILE \<mapsto> ''[{''] =
     (Response 201 (ItemBody hammer), saveInventory JSON [hammer] [INVENTORY_FILE \<mapsto> ''[{''])"
proof -
  have p: "parse JSON ''[{'' = None"
    by (simp add: JSON_def JSON_parse_def)
  have h1: "(Map.empty :: fs) INVENTORY_FILE = None \<or>
            (\<exists>data. (Map.empty :: fs) INVENTORY_FILE = Some data \<and> parse JSON data = None)"
    by simp
  have h2: "[INVENTORY_FILE \<mapsto> ''[{''] INVENTORY_FILE = None \<or>
            (\<exists>data. [INVENTORY_FILE \<mapsto> ''[{''] INVENTORY_FILE = Some data \<and> parse JSON data = None)"
    using p by simp
  have n: "req_inventory_name hammer_req = Some (Str ''Hammer'') \<and> trim ''Hammer'' \<noteq> []"
    by (simp add: hammer_req_def trim_Hammer)
  show ?thesis
    using loadInventory_fails_open [where disk = Map.empty and J = JSON, OF h1]
      loadInventory_fails_open [where disk = "[INVENTORY_FILE \<mapsto> ''[{'']" and J = JSON, OF h2] n p
    by (simp add: hammer_req_def hammer_eq)
qed

text \<open>Against claim C2 as stated: the document \<^verbatim>\<open>[{\<close> exists and does not parse,
  \<open>loadInventory\<close> returns the empty collection, and the next register request answers 201
  and replaces the document.\<close>

theorem corrupt_document_loads_empty:
  "existsSync [INVENTORY_FILE \<mapsto> ''[{''] INVENTORY_FILE \<and>
   parse JSON ''[{'' = None \<and>
   loadInventory JSON [INVENTORY_FILE \<mapsto> ''[{''] = [] \<and>
   register_handler JSON 1700000000007 hammer_req [INVENTORY_FILE \<mapsto> ''[{''] =
     (Response 201 (ItemBody hammer), [INVENTORY_FILE \<mapsto> stringify JSON [hammer]])"
proof -
  have p: "parse JSON ''[{'' = None"
    by (simp add: JSON_def JSON_parse_def)
  have l: "loadInventory JSON [INVENTORY_FILE \<mapsto> ''[{''] = []"
    by (simp add: loadInventory_def readFile_def p)
  have r: "register_handler JSON 1700000000007 hammer_req [INVENTORY_FILE \<mapsto> ''[{''] =
     (Response 201 (ItemBody hammer), [INVENTORY_FILE \<mapsto> stringify JSON [hammer]])"
    using register_handler_accepts [of hammer_req "''Hammer''" JSON 1700000000007 "[INVENTORY_FILE \<mapsto> ''[{'']"]
    by (simp add: hammer_req_def trim_Hammer hammer_eq l saveInventory_def writeFile_def)
  show ?thesis using p l r by (simp add: existsSync_def)
qed

text \<open>
  Claim C8: for a persisted collection, saving what was just loaded leaves the content of the
  document unchanged. Let the document hold a text that parses to \<open>items\<close>, and let the
  codec read \<open>items\<close> back from the text it writes for them. Then \<open>loadInventory\<close> returns
  \<open>items\<close>, saving them writes a document that loads as \<open>items\<close> again and changes no other
  file, a document that was itself written by \<open>saveInventory\<close> is left byte for byte as it
  was, and doing the same a second time changes nothing.
\<close>

theorem save_after_load_keeps_collection:
  assumes "disk INVENTORY_FILE = Some data"
    and "parse J data = Some items"
    and "parse J (stringify J items) = Some items"
  shows "loadInventory J disk = items \<and>
         loadInventory J (saveInventory J (loadInventory J disk) disk) = items \<and>
         saveInventory J (loadInventory J disk) disk = disk(INVENTORY_FILE \<mapsto> stringify J items) \<and>
         (data = stringify J items \<longrightarrow> saveInventory J (loadInventory J disk) disk = disk) \<and>
         saveInventory J (loadInventory J (saveInventory J (loadInventory J disk) disk))
           (saveInventory J (loadInventory J disk) disk) =
         saveInventory J (loadInventory J disk) disk"
proof -
  have l: "loadInventory J disk = items"
    using assms(1,2) by (simp add: loadInventory_present)
  have s: "saveInventory J items disk = disk(INVENTORY_FILE \<mapsto> stringify J items)"
    by (simp add: saveInventory_def writeFile_def)
  have l': "loadInventory J (saveInventory J items disk) = items"
    using assms(3) by (simp add: loadInventory_def readFile_def saveInventory_def writeFile_def)
  have same: "data = stringify J items \<longrightarrow> saveInventory J items disk = disk"
    using assms(1) by (auto simp add: s)
  have twice: "saveInventory J items (saveInventory J items disk) = saveInventory J items disk"
    by (simp add: saveInventory_def writeFile_def)
  show ?thesis using l s l' same twice by simp
qed

text \<open>Claim C8 at the document of two items, with the concrete codec.\<close>

theorem save_after_load_keeps_collection_witness:
  "[INVENTORY_FILE \<mapsto> stringify JSON [drill, hammer]] INVENTORY_FILE = Some (stringify JSON [drill, hammer]) \<and>
   parse JSON (stringify JSON [drill, hammer]) = Some [drill, hammer] \<and>
   loadInventory JSON [INVENTORY_FILE \<mapsto> stringify JSON [drill, hammer]] = [drill, hammer] \<and>
   saveInventory JSON (loadInventory JSON [INVENTORY_FILE \<mapsto> stringify JSON [drill, hammer]])
     [INVENTORY_FILE \<mapsto> stringify JSON [drill, hammer]] =
   [INVENTORY_FILE \<mapsto> stringify JSON [drill, hammer]]"
proof -
  let ?doc = "stringify JSON [drill, hammer]"
  have h1: "[INVENTORY_FILE \<mapsto> ?doc] INVENTORY_FILE = Some ?doc"
    by simp
  have h2: "parse JSON ?doc = Some [drill, hammer]"
    using roundtrip_JSON by (simp add: roundtrip_def)
  note t = save_after_load_keeps_collection
      [where disk = "[INVENTORY_FILE \<mapsto> ?doc]" and J = JSON, OF h1 h2 h2]
  from t have a: "loadInventory JSON [INVENTORY_FILE \<mapsto> ?doc] = [drill, hammer]"
    by (rule conjunct1)
  from t have b: "saveInventory JSON (loadInventory JSON [INVENTORY_FILE \<mapsto> ?doc])
      [INVENTORY_FILE \<mapsto> ?doc] = [INVENTORY_FILE \<mapsto> ?doc]"
    by blast
  show ?thesis
    using h1 h2 a b by (intro conjI)
qed

lemmas codec_defs = JSON_def JSON_stringify_def JSON_parse_def item_text_def member_text_def
  quote_def value_text_def escape_def parse_item_def parse_member_def parse_string_def
  parse_value_def push_def unescape_def hex_val_def

lemma writeFile_states_nth:
  "k \<le> length data \<Longrightarrow> writeFile_states disk p data ! k = disk(p \<mapsto> take k data)"
proof -
  assume "k \<le> length data"
  then have "k < length [0..<Suc (length data)]" by simp
  then have "map (\<lambda>k. disk(p \<mapsto> take k data)) [0..<Suc (length data)] ! k =
             disk(p \<mapsto> take ([0..<Suc (length data)] ! k) data)"
    by (rule nth_map)
  moreover have "[0..<Suc (length data)] ! k = k"
    using \<open>k \<le> length data\<close> by (metis add_0 le_imp_less_Suc nth_upt)
  ultimately show ?thesis by (simp add: writeFile_states_def)
qed

lemma writeFile_states_last: "last (writeFile_states disk p data) = writeFile disk p data"
  by (simp add: writeFile_states_def writeFile_def last_map)

text \<open>
  Claim C3 says that a crash in the middle of a save leaves either the previous document or the
  complete new one, by way of a temporary file and a rename. \<^verbatim>\<open>saveInventory\<close> is one
  \<^verbatim>\<open>writeFile\<close> on \<^verbatim>\<open>inventory.json\<close> itself. As amended: the save writes the
  serialized collection directly into the document, with no temporary file and no rename. Once
  the write has completed the document is the complete new text and no other file has changed;
  while it runs, the document holds the first \<open>k\<close> code units of the new text, for some
  \<open>k\<close> up to its length.
\<close>

theorem saveInventory_writes_in_place:
  "length (saveInventory_states J items disk) = Suc (length (stringify J items)) \<and>
   (\<forall>k \<le> length (stringify J items).
      saveInventory_states J items disk ! k = disk(INVENTORY_FILE \<mapsto> take k (stringify J items))) \<and>
   last (saveInventory_states J items disk) = saveInventory J items disk \<and>
   saveInventory J items disk = disk(INVENTORY_FILE \<mapsto> stringify J items)"
  by (simp add: saveInventory_states_def saveInventory_def writeFile_states_nth writeFile_states_last)
    (simp add: writeFile_states_def writeFile_def)

text \<open>The amended claim for the save of two items over the document of one, at the point where
  20 code units have been written and at the end.\<close>

lemma prefix20:
  "take 20 (stringify JSON [drill, hammer]) =
   ''['' @ [NL] @ ''  {'' @ [NL] @ ''    '' @ [DQ] @ ''id'' @ [DQ] @ '': '' @ [DQ] @ ''170''"
  by (simp add: codec_defs drill_def hammer_def)

lemma len20: "20 \<le> length (stringify JSON [drill, hammer])"
  by (simp add: codec_defs drill_def hammer_def)

theorem saveInventory_writes_in_place_witness:
  "(20::nat) \<le> length (stringify JSON [drill, hammer]) \<and>
   saveInventory_states JSON [drill, hammer] [INVENTORY_FILE \<mapsto> stringify JSON [drill]] ! 20 =
     [INVENTORY_FILE \<mapsto> take 20 (stringify JSON [drill, hammer])] \<and>
   last (saveInventory_states JSON [drill, hammer] [INVENTORY_FILE \<mapsto> stringify JSON [drill]]) =
     [INVENTORY_FILE \<mapsto> stringify JSON [drill, hammer]]"
proof -
  note t = saveInventory_writes_in_place
    [of JSON "[drill, hammer]" "[INVENTORY_FILE \<mapsto> stringify JSON [drill]]"]
  from t len20 have a:
    "saveInventory_states JSON [drill, hammer] [INVENTORY_FILE \<mapsto> stringify JSON [drill]] ! 20 =
     [INVENTORY_FILE \<mapsto> stringify JSON [drill]](INVENTORY_FILE \<mapsto> take 20 (stringify JSON [drill, hammer]))"
    by blast
  from t have b:
    "last (saveInventory_states JSON [drill, hammer] [INVENTORY_FILE \<mapsto> stringify JSON [drill]]) =
     [INVENTORY_FILE \<mapsto> stringify JSON [drill]](INVENTORY_FILE \<mapsto> stringify JSON [drill, hammer])"
    by simp
  show ?thesis
    using len20 by (simp only: a b) simp
qed

text \<open>Against claim C3 as stated: the document holds the item \<open>drill\<close> and the collection
  of \<open>drill\<close> and \<open>hammer\<close> is saved. After 20 code units the document is the text
  \<^verbatim>\<open>[\<close>, \<^verbatim>\<open>  {\<close>, \<^verbatim>\<open>    "id": "170\<close>: it does not parse, and what loads from it is neither
  the previous collection nor the new one.\<close>

theorem save_exposes_partial_document:
  "loadInventory JSON [INVENTORY_FILE \<mapsto> stringify JSON [drill]] = [drill] \<and>
   saveInventory_states JSON [drill, hammer] [INVENTORY_FILE \<mapsto> stringify JSON [drill]] ! 20 =
     [INVENTORY_FILE \<mapsto> ''['' @ [NL] @ ''  {'' @ [NL] @ ''    '' @ [DQ] @ ''id'' @ [DQ] @ '': '' @ [DQ] @ ''170''] \<and>
   parse JSON (''['' @ [NL] @ ''  {'' @ [NL] @ ''    '' @ [DQ] @ ''id'' @ [DQ] @ '': '' @ [DQ] @ ''170'') = None \<and>
   loadInventory JSON
     (saveInventory_states JSON [drill, hammer] [INVENTORY_FILE \<mapsto> stringify JSON [drill]] ! 20) = [] \<and>
   [] \<noteq> [drill] \<and> [] \<noteq> [drill, hammer]"
proof -
  let ?old = "[INVENTORY_FILE \<mapsto> stringify JSON [drill]]"
  let ?cut = "''['' @ [NL] @ ''  {'' @ [NL] @ ''    '' @ [DQ] @ ''id'' @ [DQ] @ '': '' @ [DQ] @ ''170''"
  have a: "loadInventory JSON ?old = [drill]"
    using roundtrip_JSON by (simp add: loadInventory_def readFile_def roundtrip_def)
  have b: "saveInventory_states JSON [drill, hammer] ?old ! 20 = [INVENTORY_FILE \<mapsto> ?cut]"
    unfolding saveInventory_states_def
    by (simp only: writeFile_states_nth [OF len20] prefix20) simp
  have c: "parse JSON ?cut = None"
    by (simp add: codec_defs)
  have d: "loadInventory JSON [INVENTORY_FILE \<mapsto> ?cut] = []"
    using c by (simp add: loadInventory_def readFile_def)
  show ?thesis
    using a c d by (simp only: b) simp
qed

section \<open>Claims about the handlers\<close>

lemma findItem_id: "findItem items i = Some item \<Longrightarrow> item_id item = i"
  by (auto simp add: findItem_def find_Some_iff)

lemma findItem_assign:
  "findItem items i = Some item \<Longrightarrow> item_id item' = i \<Longrightarrow>
   findItem (assign items i item') i = Some item'"
  by (induction items) (auto simp add: findItem_def)

text \<open>
  Claim C4: for an existing item, \<^verbatim>\<open>PUT /inventory/:id\<close> applies only the fields
  supplied. A name that is absent, \<^verbatim>\<open>null\<close>, empty or made of white space leaves the
  stored name as it is, any other name replaces it; a description that is supplied, the empty
  string included, replaces the stored one, an absent one leaves it. The answer is status 200
  with the updated item, and the collection saved holds the updated item in the place of the
  old one.
\<close>

theorem update_applies_supplied_fields:
  assumes "findItem (loadInventory J disk) i = Some item"
    and "item' = item
           \<lparr> inventory_name :=
               (case name of
                  Some (Str s) \<Rightarrow> if list_all is_ws s then inventory_name item else s
                | _ \<Rightarrow> inventory_name item),
             description := (case desc of None \<Rightarrow> description item | Some d \<Rightarrow> d) \<rparr>"
  shows "update_handler J i name desc disk =
           (Response 200 (ItemBody item'),
            saveInventory J (assign (loadInventory J disk) i item') disk) \<and>
         findItem (assign (loadInventory J disk) i item') i = Some item' \<and>
         (roundtrip J \<longrightarrow>
            findItem (loadInventory J (snd (update_handler J i name desc disk))) i = Some item')"
proof -
  have n: "set_name name item =
      item\<lparr>inventory_name :=
        (case name of
           Some (Str s) \<Rightarrow> if list_all is_ws s then inventory_name item else s
         | _ \<Rightarrow> inventory_name item)\<rparr>"
    by (simp add: set_name_def trim_empty_iff split: option.splits jsval.splits)
  have d: "set_description desc (set_name name item) = item'"
    by (simp add: set_description_def n assms(2) split: option.splits)
  have u: "update_handler J i name desc disk =
           (Response 200 (ItemBody item'),
            saveInventory J (assign (loadInventory J disk) i item') disk)"
    using assms(1) by (simp add: update_handler_def Let_def d)
  have "item_id item' = i"
    using findItem_id [OF assms(1)] by (simp add: assms(2))
  then have f: "findItem (assign (loadInventory J disk) i item') i = Some item'"
    using findItem_assign [OF assms(1)] by simp
  show ?thesis
    using u f by (simp add: load_after_save)
qed

lemma example_ids: "item_id drill = ''1700000000005''" "item_id hammer = ''1700000000007''"
  by (simp_all add: drill_def hammer_def)

lemma load_two_items_disk: "loadInventory JSON two_items_disk = [drill, hammer]"
  using roundtrip_JSON by (simp add: two_items_disk_def loadInventory_def readFile_def roundtrip_def)

text \<open>Claim C4 on the item named Hammer: the body \<^verbatim>\<open>{description: ""}\<close> clears the
  description and keeps the name, a name of two spaces changes nothing, and the name Mallet
  replaces the name.\<close>

theorem update_applies_supplied_fields_witness:
  "findItem (loadInventory JSON two_items_disk) ''1700000000007'' = Some hammer \<and>
   update_handler JSON ''1700000000007'' None (Some (Str [])) two_items_disk =
     (Response 200 (ItemBody (hammer\<lparr>description := Str []\<rparr>)),
      [INVENTORY_FILE \<mapsto> stringify JSON [drill, hammer\<lparr>description := Str []\<rparr>]]) \<and>
   inventory_name (hammer\<lparr>description := Str []\<rparr>) = ''Hammer'' \<and>
   update_handler JSON ''1700000000007'' (Some (Str ''  '')) None two_items_disk =
     (Response 200 (ItemBody hammer), two_items_disk) \<and>
   update_handler JSON ''1700000000007'' (Some (Str ''Mallet'')) None two_items_disk =
     (Response 200 (ItemBody (hammer\<lparr>inventory_name := ''Mallet''\<rparr>)),
      [INVENTORY_FILE \<mapsto> stringify JSON [drill, hammer\<lparr>inventory_name := ''Mallet''\<rparr>]])"
proof -
  have h: "findItem (loadInventory JSON two_items_disk) ''1700000000007'' = Some hammer"
    by (simp add: load_two_items_disk findItem_def drill_def hammer_def)
  have s: "saveInventory JSON items two_items_disk = [INVENTORY_FILE \<mapsto> stringify JSON items]" for items
    by (simp add: saveInventory_def writeFile_def two_items_disk_def)
  have 1: "update_handler JSON ''1700000000007'' None (Some (Str [])) two_items_disk =
     (Response 200 (ItemBody (hammer\<lparr>description := Str []\<rparr>)),
      [INVENTORY_FILE \<mapsto> stringify JSON [drill, hammer\<lparr>description := Str []\<rparr>]])"
    using update_applies_supplied_fields [OF h, where item' = "hammer\<lparr>description := Str []\<rparr>" and name = None and desc = "Some (Str [])"]
    by (simp add: load_two_items_disk example_ids s)
  have 2: "update_handler JSON ''1700000000007'' (Some (Str ''  '')) None two_items_disk =
     (Response 200 (ItemBody hammer), two_items_disk)"
    using update_applies_supplied_fields [OF h, where item' = hammer and name = "Some (Str ''  '')" and desc = None]
    by (simp add: load_two_items_disk example_ids s is_ws_def) (simp add: two_items_disk_def)
  have 3: "update_handler JSON ''1700000000007'' (Some (Str ''Mallet'')) None two_items_disk =
     (Response 200 (ItemBody (hammer\<lparr>inventory_name := ''Mallet''\<rparr>)),
      [INVENTORY_FILE \<mapsto> stringify JSON [drill, hammer\<lparr>inventory_name := ''Mallet''\<rparr>]])"
    using update_applies_supplied_fields [OF h, where item' = "hammer\<lparr>inventory_name := ''Mallet''\<rparr>" and name = "Some (Str ''Mallet'')" and desc = None]
    by (simp add: load_two_items_disk example_ids s is_ws_def)
  show ?thesis
    using h 1 2 3 by (simp add: hammer_def)
qed

lemma or_empty_cases:
  "or_empty v = (case v of Some (Str d) \<Rightarrow> Str d | _ \<Rightarrow> Str [])"
  by (simp add: or_empty_def split: option.splits jsval.splits)

text \<open>
  Claim C6: \<^verbatim>\<open>POST /register\<close> answers 400 exactly when the name is absent,
  \<^verbatim>\<open>null\<close>, empty or made of white space only. For every other name it answers 201
  with the new item: its id is the decimal text of \<^verbatim>\<open>Date.now()\<close>, its description is
  the one supplied or the empty string, and its photo reference is the stored file's name when
  a photo was uploaded and \<^verbatim>\<open>null\<close> otherwise. The photo is in the cache directory
  before the handler runs, the document saved is the loaded collection with the new item
  appended, and the photo is still there afterwards.
\<close>

theorem register_validates_and_creates:
  "(fst (post_register J now req disk) = Response 400 (ErrorBody ''inventory_name is required'')) =
     (req_inventory_name req = None \<or> req_inventory_name req = Some Null \<or>
      (\<exists>s. req_inventory_name req = Some (Str s) \<and> list_all is_ws s)) \<and>
   (\<forall>name new stored.
      req_inventory_name req = Some (Str name) \<and> \<not> list_all is_ws name \<and>
      stored = upload_single (req_file req) disk \<and>
      new = \<lparr> item_id = String_of now,
              inventory_name = name,
              description = (case req_description req of Some (Str d) \<Rightarrow> Str d | _ \<Rightarrow> Str []),
              photoFilename = (case req_file req of None \<Rightarrow> Null | Some f \<Rightarrow> Str (filename f)),
              photoUrl = (case req_file req of
                            None \<Rightarrow> Null
                          | Some f \<Rightarrow> Str (''/inventory/'' @ String_of now @ ''/photo'')) \<rparr> \<longrightarrow>
      post_register J now req disk =
        (Response 201 (ItemBody new), saveInventory J (loadInventory J stored @ [new]) stored) \<and>
      (\<forall>f. req_file req = Some f \<longrightarrow> stored (filename f) = Some (content f)) \<and>
      (\<forall>f. req_file req = Some f \<and> filename f \<noteq> INVENTORY_FILE \<longrightarrow>
           snd (post_register J now req disk) (filename f) = Some (content f)) \<and>
      (roundtrip J \<longrightarrow>
         loadInventory J (snd (post_register J now req disk)) = loadInventory J stored @ [new]))"
proof (intro conjI allI impI)
  show "(fst (post_register J now req disk) = Response 400 (ErrorBody ''inventory_name is required'')) =
     (req_inventory_name req = None \<or> req_inventory_name req = Some Null \<or>
      (\<exists>s. req_inventory_name req = Some (Str s) \<and> list_all is_ws s))"
    using register_handler_rejects [of J now req "upload_single (req_file req) disk"]
    by (auto simp add: post_register_def name_required_def trim_empty_iff
        split: option.splits jsval.splits)
next
  fix name new stored
  assume a: "req_inventory_name req = Some (Str name) \<and> \<not> list_all is_ws name \<and>
      stored = upload_single (req_file req) disk \<and>
      new = \<lparr> item_id = String_of now,
              inventory_name = name,
              description = (case req_description req of Some (Str d) \<Rightarrow> Str d | _ \<Rightarrow> Str []),
              photoFilename = (case req_file req of None \<Rightarrow> Null | Some f \<Rightarrow> Str (filename f)),
              photoUrl = (case req_file req of
                            None \<Rightarrow> Null
                          | Some f \<Rightarrow> Str (''/inventory/'' @ String_of now @ ''/photo'')) \<rparr>"
  from a have n: "req_inventory_name req = Some (Str name)"
    by (rule conjunct1)
  from a have "\<not> list_all is_ws name"
    by blast
  then have t: "trim name \<noteq> []"
    by (simp add: trim_empty_iff)
  have new: "new = newItem (String_of now) name (req_description req) (req_file req)"
    using a by (simp add: newItem_def or_empty_cases photo_url_def split: option.splits)
  show p: "post_register J now req disk =
        (Response 201 (ItemBody new), saveInventory J (loadInventory J stored @ [new]) stored)"
    using register_handler_accepts [OF n t, of J now stored] a
    by (simp add: post_register_def new)
  show "roundtrip J \<Longrightarrow>
         loadInventory J (snd (post_register J now req disk)) = loadInventory J stored @ [new]"
    by (simp add: p load_after_save)
  fix f
  show "req_file req = Some f \<Longrightarrow> stored (filename f) = Some (content f)"
    using a by (simp add: upload_single_def writeFile_def)
  show "req_file req = Some f \<and> filename f \<noteq> INVENTORY_FILE \<Longrightarrow>
           snd (post_register J now req disk) (filename f) = Some (content f)"
    using a by (simp add: p saveInventory_other upload_single_def writeFile_def)
qed

lemma drill_filename: "filename drill_upload = ''1700000000000-123456789.png''"
  by (simp add: drill_upload_def storage_filename_def String_of.simps digit_char_def)

lemma String_of_example: "String_of 1700000000005 = ''1700000000005''"
  by (simp add: String_of.simps digit_char_def)

text \<open>Claim C6 for a name of three spaces, and for the drill with its photo in an empty
  cache directory.\<close>

theorem register_validates_and_creates_witness:
  "req_inventory_name blank_req = Some (Str ''   '') \<and> list_all is_ws ''   '' \<and>
   fst (post_register JSON 1700000000005 blank_req Map.empty) =
     Response 400 (ErrorBody ''inventory_name is required'') \<and>
   req_inventory_name drill_req = Some (Str ''Drill'') \<and> \<not> list_all is_ws ''Drill'' \<and>
   req_file drill_req = Some drill_upload \<and>
   post_register JSON 1700000000005 drill_req Map.empty =
     (Response 201 (ItemBody drill),
      [''1700000000000-123456789.png'' \<mapsto> ''drill-photo-bytes'',
       INVENTORY_FILE \<mapsto> stringify JSON [drill]]) \<and>
   loadInventory JSON (snd (post_register JSON 1700000000005 drill_req Map.empty)) = [drill]"
proof -
  have b: "req_inventory_name blank_req = Some (Str ''   '') \<and> list_all is_ws ''   ''"
    by (simp add: blank_req_def is_ws_def)
  have 1: "fst (post_register JSON 1700000000005 blank_req Map.empty) =
     Response 400 (ErrorBody ''inventory_name is required'')"
    using register_validates_and_creates [of JSON 1700000000005 blank_req Map.empty] b
    by blast
  have d: "req_inventory_name drill_req = Some (Str ''Drill'') \<and> \<not> list_all is_ws ''Drill'' \<and>
     req_file drill_req = Some drill_upload"
    by (simp add: drill_req_def is_ws_def)
  have stored: "upload_single (req_file drill_req) Map.empty =
      [''1700000000000-123456789.png'' \<mapsto> ''drill-photo-bytes'']"
    by (simp add: drill_req_def upload_single_def writeFile_def drill_filename)
      (simp add: drill_upload_def)
  have new: "drill = \<lparr> item_id = String_of 1700000000005,
              inventory_name = ''Drill'',
              description = (case req_description drill_req of Some (Str d) \<Rightarrow> Str d | _ \<Rightarrow> Str []),
              photoFilename = (case req_file drill_req of None \<Rightarrow> Null | Some f \<Rightarrow> Str (filename f)),
              photoUrl = (case req_file drill_req of
                            None \<Rightarrow> Null
                          | Some f \<Rightarrow> Str (''/inventory/'' @ String_of 1700000000005 @ ''/photo'')) \<rparr>"
    by (simp add: drill_def drill_req_def drill_filename String_of_example)
  have l0: "loadInventory JSON [''1700000000000-123456789.png'' \<mapsto> ''drill-photo-bytes''] = []"
    by (simp add: loadInventory_def readFile_def INVENTORY_FILE_def)
  have hyp: "req_inventory_name drill_req = Some (Str ''Drill'') \<and> \<not> list_all is_ws ''Drill'' \<and>
      [''1700000000000-123456789.png'' \<mapsto> ''drill-photo-bytes''] =
        upload_single (req_file drill_req) Map.empty \<and>
      drill = \<lparr> item_id = String_of 1700000000005,
              inventory_name = ''Drill'',
              description = (case req_description drill_req of Some (Str d) \<Rightarrow> Str d | _ \<Rightarrow> Str []),
              photoFilename = (case req_file drill_req of None \<Rightarrow> Null | Some f \<Rightarrow> Str (filename f)),
              photoUrl = (case req_file drill_req of
                            None \<Rightarrow> Null
                          | Some f \<Rightarrow> Str (''/inventory/'' @ String_of 1700000000005 @ ''/photo'')) \<rparr>"
    using d stored new by (intro conjI) simp_all
  note t = register_validates_and_creates
    [of JSON 1700000000005 drill_req Map.empty, THEN conjunct2, rule_format, OF hyp]
  have "post_register JSON 1700000000005 drill_req Map.empty =
        (Response 201 (ItemBody drill),
         saveInventory JSON
           (loadInventory JSON [''1700000000000-123456789.png'' \<mapsto> ''drill-photo-bytes''] @ [drill])
           [''1700000000000-123456789.png'' \<mapsto> ''drill-photo-bytes''])"
    using t by (rule conjunct1)
  moreover have
      "loadInventory JSON (snd (post_register JSON 1700000000005 drill_req Map.empty)) =
         loadInventory JSON [''1700000000000-123456789.png'' \<mapsto> ''drill-photo-bytes''] @ [drill]"
    using t roundtrip_JSON by blast
  ultimately have 2: "post_register JSON 1700000000005 drill_req Map.empty =
     (Response 201 (ItemBody drill),
      [''1700000000000-123456789.png'' \<mapsto> ''drill-photo-bytes'',
       INVENTORY_FILE \<mapsto> stringify JSON [drill]])"
    and 3: "loadInventory JSON (snd (post_register JSON 1700000000005 drill_req Map.empty)) = [drill]"
    by (simp_all only: l0 saveInventory_def writeFile_def append_Nil)
  show ?thesis
    using b 1 d 2 3 by (intro conjI) simp_all
qed

text \<open>
  Claim C7: for an item without a photo reference (\<^verbatim>\<open>null\<close>, or the empty string)
  \<^verbatim>\<open>GET /inventory/:id/photo\<close> answers 404 with the error
  \<^verbatim>\<open>Photo not found\<close>. For an item whose reference names a file that is not in the cache
  directory it answers 404 with the error \<^verbatim>\<open>Photo file not found\<close>, an answer different
  from the first. Otherwise it answers 200 with the bytes of the file under the content type
  \<^verbatim>\<open>image/jpeg\<close>.
\<close>

theorem fetch_photo_outcomes:
  assumes "findItem (loadInventory J disk) i = Some item"
  shows "(photoFilename item = Null \<or> photoFilename item = Str [] \<longrightarrow>
            fetch_photo_handler J i disk = Response 404 (ErrorBody ''Photo not found'')) \<and>
         (\<forall>p. photoFilename item = Str p \<and> p \<noteq> [] \<and> disk p = None \<longrightarrow>
            fetch_photo_handler J i disk = Response 404 (ErrorBody ''Photo file not found'') \<and>
            fetch_photo_handler J i disk \<noteq> Response 404 (ErrorBody ''Photo not found'')) \<and>
         (\<forall>p bytes. photoFilename item = Str p \<and> p \<noteq> [] \<and> disk p = Some bytes \<longrightarrow>
            fetch_photo_handler J i disk = Response 200 (FileBody ''image/jpeg'' bytes))"
  using assms
  by (auto simp add: fetch_photo_handler_def Let_def photo_not_found_def photo_file_not_found_def)

lemma find_examples:
  "findItem [drill, hammer] ''1700000000005'' = Some drill"
  "findItem [drill, hammer] ''1700000000007'' = Some hammer"
  "findItem [drill, hammer] ''42'' = None"
  by (simp_all add: findItem_def example_ids)

lemma load_with_photo:
  "loadInventory JSON (two_items_disk(''1700000000000-123456789.png'' \<mapsto> bytes)) = [drill, hammer]"
  using roundtrip_JSON
  by (simp add: two_items_disk_def loadInventory_def readFile_def roundtrip_def INVENTORY_FILE_def)

text \<open>Claim C7 for the hammer, which has no photo, for the drill when its file is missing, and
  for the drill when its file is there.\<close>

theorem fetch_photo_outcomes_witness:
  "findItem (loadInventory JSON two_items_disk) ''1700000000007'' = Some hammer \<and>
   photoFilename hammer = Null \<and>
   fetch_photo_handler JSON ''1700000000007'' two_items_disk =
     Response 404 (ErrorBody ''Photo not found'') \<and>
   findItem (loadInventory JSON two_items_disk) ''1700000000005'' = Some drill \<and>
   photoFilename drill = Str ''1700000000000-123456789.png'' \<and>
   two_items_disk ''1700000000000-123456789.png'' = None \<and>
   fetch_photo_handler JSON ''1700000000005'' two_items_disk =
     Response 404 (ErrorBody ''Photo file not found'') \<and>
   (two_items_disk(''1700000000000-123456789.png'' \<mapsto> ''drill-photo-bytes''))
     ''1700000000000-123456789.png'' = Some ''drill-photo-bytes'' \<and>
   fetch_photo_handler JSON ''1700000000005''
     (two_items_disk(''1700000000000-123456789.png'' \<mapsto> ''drill-photo-bytes'')) =
     Response 200 (FileBody ''image/jpeg'' ''drill-photo-bytes'')"
proof -
  let ?photo = "''1700000000000-123456789.png''"
  let ?with = "two_items_disk(?photo \<mapsto> ''drill-photo-bytes'')"
  have h: "findItem (loadInventory JSON two_items_disk) ''1700000000007'' = Some hammer"
    by (simp add: load_two_items_disk find_examples)
  have d: "findItem (loadInventory JSON two_items_disk) ''1700000000005'' = Some drill"
    by (simp add: load_two_items_disk find_examples)
  have d': "findItem (loadInventory JSON ?with) ''1700000000005'' = Some drill"
    by (simp add: load_with_photo find_examples)
  have ph: "photoFilename hammer = Null"
    by (simp add: hammer_def)
  have pd: "photoFilename drill = Str ?photo \<and> ?photo \<noteq> []"
    by (simp add: drill_def)
  have missing: "two_items_disk ?photo = None"
    by (simp add: two_items_disk_def INVENTORY_FILE_def)
  have there: "?with ?photo = Some ''drill-photo-bytes''"
    by simp
  have 1: "fetch_photo_handler JSON ''1700000000007'' two_items_disk =
     Response 404 (ErrorBody ''Photo not found'')"
    using fetch_photo_outcomes [OF h] ph by blast
  have 2: "fetch_photo_handler JSON ''1700000000005'' two_items_disk =
     Response 404 (ErrorBody ''Photo file not found'')"
    using fetch_photo_outcomes [OF d] pd missing by blast
  have 3: "fetch_photo_handler JSON ''1700000000005'' ?with =
     Response 200 (FileBody ''image/jpeg'' ''drill-photo-bytes'')"
    using fetch_photo_outcomes [OF d'] pd there by blast
  show ?thesis
    using h ph 1 d pd missing 2 there 3 by (intro conjI) simp_all
qed

lemma upload_keeps_document:
  "filename f \<noteq> INVENTORY_FILE \<Longrightarrow>
   loadInventory J (upload_single (Some f) disk) = loadInventory J disk"
  by (simp add: loadInventory_def readFile_def upload_single_def writeFile_def)

text \<open>
  Claim C10: \<^verbatim>\<open>PUT /inventory/:id/photo\<close> with an upload, for an id that matches no
  item of the persisted collection. The upload carries a name generated by the storage. The
  request answers 404 with the error \<^verbatim>\<open>Item not found\<close>; afterwards no file has the
  name of the upload, every file with another name is as it was before the request, and the
  collection that loads is the same.
\<close>

theorem replace_photo_unknown_id:
  assumes "findItem (loadInventory J disk) i = None"
    and "filename f = storage_filename t r e"
  shows "put_photo J i (Some f) disk =
           (Response 404 (ErrorBody ''Item not found''), disk(filename f := None)) \<and>
         snd (put_photo J i (Some f) disk) (filename f) = None \<and>
         (\<forall>p. p \<noteq> filename f \<longrightarrow> snd (put_photo J i (Some f) disk) p = disk p) \<and>
         loadInventory J (snd (put_photo J i (Some f) disk)) = loadInventory J disk"
proof -
  have n: "filename f \<noteq> INVENTORY_FILE"
    using storage_filename_not_document [of t r e] assms(2) by simp
  have l: "loadInventory J (upload_single (Some f) disk) = loadInventory J disk"
    using n by (rule upload_keeps_document)
  have p: "put_photo J i (Some f) disk =
           (Response 404 (ErrorBody ''Item not found''), disk(filename f := None))"
    using assms(1)
    by (simp add: put_photo_def replace_photo_handler_def l Let_def item_not_found_def)
      (simp add: upload_single_def writeFile_def unlink_def existsSync_def item_not_found_def)
  have l': "loadInventory J (disk(filename f := None)) = loadInventory J disk"
    using n by (simp add: loadInventory_def readFile_def)
  show ?thesis
    by (simp add: p l')
qed

text \<open>Claim C10 for the id \<^verbatim>\<open>42\<close> on the directory of two items: the whole directory
  is as before.\<close>

theorem replace_photo_unknown_id_witness:
  "findItem (loadInventory JSON two_items_disk) ''42'' = None \<and>
   filename drill_upload = storage_filename 1700000000000 123456789 ''.png'' \<and>
   put_photo JSON ''42'' (Some drill_upload) two_items_disk =
     (Response 404 (ErrorBody ''Item not found''), two_items_disk) \<and>
   loadInventory JSON (snd (put_photo JSON ''42'' (Some drill_upload) two_items_disk)) =
     [drill, hammer]"
proof -
  have h: "findItem (loadInventory JSON two_items_disk) ''42'' = None"
    by (simp add: load_two_items_disk find_examples)
  have g: "filename drill_upload = storage_filename 1700000000000 123456789 ''.png''"
    by (simp add: drill_upload_def)
  have same: "two_items_disk(filename drill_upload := None) = two_items_disk"
    by (simp add: two_items_disk_def drill_filename INVENTORY_FILE_def)
  note t = replace_photo_unknown_id [OF h g]
  from t have 1: "put_photo JSON ''42'' (Some drill_upload) two_items_disk =
     (Response 404 (ErrorBody ''Item not found''), two_items_disk)"
    by (simp only: same)
  from t have "loadInventory JSON (snd (put_photo JSON ''42'' (Some drill_upload) two_items_disk)) =
     loadInventory JSON two_items_disk"
    by blast
  then have 2: "loadInventory JSON (snd (put_photo JSON ''42'' (Some drill_upload) two_items_disk)) =
     [drill, hammer]"
    by (simp only: load_two_items_disk)
  show ?thesis
    using h g 1 2 by (intro conjI)
qed

section \<open>Claims about the invariants of the collection\<close>

lemma trim_examples: "trim ''Drill'' = ''Drill''" "trim ''Nails'' = ''Nails''"
  by (simp_all add: trim_def is_ws_def)

lemma register_drill:
  "post_register JSON 1700000000005 drill_req disk =
     (Response 201 (ItemBody drill),
      saveInventory JSON
        (loadInventory JSON (disk(''1700000000000-123456789.png'' \<mapsto> ''drill-photo-bytes'')) @ [drill])
        (disk(''1700000000000-123456789.png'' \<mapsto> ''drill-photo-bytes'')))"
proof -
  have u: "upload_single (req_file drill_req) disk =
      disk(''1700000000000-123456789.png'' \<mapsto> ''drill-photo-bytes'')"
    by (simp add: drill_req_def upload_single_def writeFile_def drill_filename)
      (simp add: drill_upload_def)
  have n: "newItem (String_of 1700000000005) ''Drill'' (req_description drill_req) (req_file drill_req) = drill"
    by (simp add: newItem_def drill_req_def drill_def or_empty_def String_of_example drill_filename
        photo_url_def)
  have "req_inventory_name drill_req = Some (Str ''Drill'')"
    by (simp add: drill_req_def)
  then show ?thesis
    using register_handler_accepts [of drill_req "''Drill''" JSON 1700000000005]
    by (simp add: post_register_def u n trim_examples)
qed

lemma register_drill_empty:
  "post_register JSON 1700000000005 drill_req Map.empty = (Response 201 (ItemBody drill), drill_disk)"
  by (simp add: register_drill loadInventory_def readFile_def saveInventory_def writeFile_def
      drill_disk_def INVENTORY_FILE_def)

lemma load_drill_disk: "loadInventory JSON drill_disk = [drill]"
  using roundtrip_JSON by (simp add: drill_disk_def loadInventory_def readFile_def roundtrip_def)

lemma load_document_only: "loadInventory JSON [INVENTORY_FILE \<mapsto> stringify JSON items] = items"
  using roundtrip_JSON by (simp add: loadInventory_def readFile_def roundtrip_def)

text \<open>
  Claim C1 says that after every operation each photo reference of the persisted collection
  names a file of the cache directory, also when \<^verbatim>\<open>PUT /inventory/:id/photo\<close> comes
  without an upload. The handler removes the old file before it looks at
  \<^verbatim>\<open>req.file\<close>, and only assigns the reference when there is one. Here the drill is
  registered with its photo in an empty directory, and its photo is then replaced by a request
  without a file: the answer is 200, the item still references the photo, the file is gone, and
  fetching the photo answers 404 with \<^verbatim>\<open>Photo file not found\<close>.
\<close>

theorem replace_photo_without_upload_dangles:
  "post_register JSON 1700000000005 drill_req Map.empty = (Response 201 (ItemBody drill), drill_disk) \<and>
   photoFilename drill = Str ''1700000000000-123456789.png'' \<and>
   drill_disk ''1700000000000-123456789.png'' = Some ''drill-photo-bytes'' \<and>
   put_photo JSON ''1700000000005'' None drill_disk =
     (Response 200 (ItemBody drill), [INVENTORY_FILE \<mapsto> stringify JSON [drill]]) \<and>
   loadInventory JSON [INVENTORY_FILE \<mapsto> stringify JSON [drill]] = [drill] \<and>
   [INVENTORY_FILE \<mapsto> stringify JSON [drill]] ''1700000000000-123456789.png'' = None \<and>
   fetch_photo_handler JSON ''1700000000005'' [INVENTORY_FILE \<mapsto> stringify JSON [drill]] =
     Response 404 (ErrorBody ''Photo file not found'')"
proof -
  have p: "photoFilename drill = Str ''1700000000000-123456789.png''"
    by (simp add: drill_def)
  have un: "unlink_existing drill_disk (Str ''1700000000000-123456789.png'') =
      [INVENTORY_FILE \<mapsto> stringify JSON [drill]]"
    by (auto simp add: unlink_existing_def existsSync_def drill_disk_def INVENTORY_FILE_def)
  have put: "put_photo JSON ''1700000000005'' None drill_disk =
     (Response 200 (ItemBody drill), [INVENTORY_FILE \<mapsto> stringify JSON [drill]])"
    by (simp add: put_photo_def upload_single_def replace_photo_handler_def load_drill_disk
        findItem_def example_ids p un saveInventory_def writeFile_def)
  have gone: "[INVENTORY_FILE \<mapsto> stringify JSON [drill]] ''1700000000000-123456789.png'' = None"
    by (simp add: INVENTORY_FILE_def)
  have fetch: "fetch_photo_handler JSON ''1700000000005'' [INVENTORY_FILE \<mapsto> stringify JSON [drill]] =
     Response 404 (ErrorBody ''Photo file not found'')"
    by (simp add: fetch_photo_handler_def load_document_only findItem_def example_ids p
        photo_file_not_found_def)
      (simp add: INVENTORY_FILE_def)
  have there: "drill_disk ''1700000000000-123456789.png'' = Some ''drill-photo-bytes''"
    by (simp add: drill_disk_def INVENTORY_FILE_def)
  show ?thesis
    using register_drill_empty p there put load_document_only [of "[drill]"] gone fetch
    by (intro conjI)
qed

text \<open>
  Claim C5 says that ids are pairwise distinct, also for two registrations within one
  millisecond. The id is the decimal text of \<^verbatim>\<open>Date.now()\<close> and nothing else. Here the
  drill and the nails are registered one after the other while \<^verbatim>\<open>Date.now()\<close> is
  1700000000005: both requests answer 201, and the persisted collection holds two different
  items with the same id.
\<close>

theorem same_millisecond_same_id:
  "post_register JSON 1700000000005 drill_req Map.empty = (Response 201 (ItemBody drill), drill_disk) \<and>
   post_register JSON 1700000000005 nails_req drill_disk =
     (Response 201 (ItemBody (nails\<lparr>item_id := ''1700000000005''\<rparr>)),
      drill_disk(INVENTORY_FILE \<mapsto> stringify JSON [drill, nails\<lparr>item_id := ''1700000000005''\<rparr>])) \<and>
   loadInventory JSON
     (drill_disk(INVENTORY_FILE \<mapsto> stringify JSON [drill, nails\<lparr>item_id := ''1700000000005''\<rparr>])) =
     [drill, nails\<lparr>item_id := ''1700000000005''\<rparr>] \<and>
   item_id drill = item_id (nails\<lparr>item_id := ''1700000000005''\<rparr>) \<and>
   drill \<noteq> nails\<lparr>item_id := ''1700000000005''\<rparr>"
proof -
  have n: "newItem (String_of 1700000000005) ''Nails'' (req_description nails_req) (req_file nails_req) =
      nails\<lparr>item_id := ''1700000000005''\<rparr>"
    by (simp add: newItem_def nails_req_def nails_def or_empty_def String_of_example)
  have "req_inventory_name nails_req = Some (Str ''Nails'')"
    by (simp add: nails_req_def)
  then have 2: "post_register JSON 1700000000005 nails_req drill_disk =
     (Response 201 (ItemBody (nails\<lparr>item_id := ''1700000000005''\<rparr>)),
      drill_disk(INVENTORY_FILE \<mapsto> stringify JSON [drill, nails\<lparr>item_id := ''1700000000005''\<rparr>]))"
    using register_handler_accepts [of nails_req "''Nails''" JSON 1700000000005 drill_disk]
    by (simp add: post_register_def n trim_examples load_drill_disk saveInventory_def writeFile_def)
      (simp add: upload_single_def nails_req_def)
  have 3: "loadInventory JSON
     (drill_disk(INVENTORY_FILE \<mapsto> stringify JSON [drill, nails\<lparr>item_id := ''1700000000005''\<rparr>])) =
     [drill, nails\<lparr>item_id := ''1700000000005''\<rparr>]"
    using roundtrip_JSON by (simp add: loadInventory_def readFile_def roundtrip_def)
  show ?thesis
    using register_drill_empty 2 3 by (simp add: drill_def nails_def)
qed

section \<open>Claims about requests that overlap\<close>

text \<open>The two segments of a register request, run back to back, are the handler.\<close>

lemma register_step_twice:
  "(case register_step J now0 (Start req) disk of (t, d) \<Rightarrow> register_step J now t d) =
   (Done (fst (register_handler J now req disk)), snd (register_handler J now req disk))"
  by (simp add: register_handler_def Let_def split: option.splits jsval.splits)

lemma String_of_examples:
  "String_of 1700000000007 = ''1700000000007''" "String_of 1700000000009 = ''1700000000009''"
  by (simp_all add: String_of.simps digit_char_def)

lemma upload_keeps_document_opt:
  "(case file of None \<Rightarrow> True | Some f \<Rightarrow> filename f \<noteq> INVENTORY_FILE) \<Longrightarrow>
   loadInventory J (upload_single file disk) = loadInventory J disk"
  by (cases "file") (simp_all add: upload_keeps_document, simp add: upload_single_def)

lemma post_register_appends:
  assumes "roundtrip J"
    and "req_inventory_name req = Some (Str name)" and "\<not> list_all is_ws name"
    and "case req_file req of None \<Rightarrow> True | Some f \<Rightarrow> filename f \<noteq> INVENTORY_FILE"
  shows "\<exists>new. loadInventory J (snd (post_register J now req disk)) = loadInventory J disk @ [new] \<and>
               item_id new = String_of now \<and> inventory_name new = name"
proof -
  let ?new = "newItem (String_of now) name (req_description req) (req_file req)"
  have t: "trim name \<noteq> []"
    using assms(3) by (simp add: trim_empty_iff)
  have "post_register J now req disk =
      (Response 201 (ItemBody ?new),
       saveInventory J (loadInventory J (upload_single (req_file req) disk) @ [?new])
         (upload_single (req_file req) disk))"
    using register_handler_accepts [OF assms(2) t] by (simp add: post_register_def)
  then have "loadInventory J (snd (post_register J now req disk)) = loadInventory J disk @ [?new]"
    using assms(1,4) by (simp add: load_after_save upload_keeps_document_opt)
  moreover have "item_id ?new = String_of now \<and> inventory_name ?new = name"
    by (simp add: newItem_def)
  ultimately show ?thesis by blast
qed

text \<open>
  Claim C9 says that N concurrent registrations always leave N items with N distinct ids. The
  program has no lock around the cycle of load, change and save. As amended: when the
  registrations run one after the other, each from its upload to its response before the next
  begins, with names that are not blank, uploads that are not named like the document, and
  pairwise different values of \<^verbatim>\<open>Date.now()\<close>, the collection that loads afterwards is the
  previous collection followed by N new items, one per request in order, with the ids and
  names of the requests, and the N ids are distinct. (The codec is assumed to read back what it
  writes.)
\<close>

theorem serial_registers_keep_all:
  assumes "roundtrip J"
    and "list_all (\<lambda>(now, req).
           (case req_inventory_name req of Some (Str name) \<Rightarrow> \<not> list_all is_ws name | _ \<Rightarrow> False) \<and>
           (case req_file req of None \<Rightarrow> True | Some f \<Rightarrow> filename f \<noteq> INVENTORY_FILE)) reqs"
    and "distinct (map fst reqs)"
  shows "\<exists>news. loadInventory J (register_all J reqs disk) = loadInventory J disk @ news \<and>
                length news = length reqs \<and>
                map item_id news = map (\<lambda>(now, req). String_of now) reqs \<and>
                map (\<lambda>new. Some (Str (inventory_name new))) news = map (\<lambda>(now, req). req_inventory_name req) reqs \<and>
                distinct (map item_id news)"
proof -
  have main: "\<exists>news. loadInventory J (register_all J reqs disk) = loadInventory J disk @ news \<and>
                map item_id news = map (\<lambda>(now, req). String_of now) reqs \<and>
                map (\<lambda>new. Some (Str (inventory_name new))) news = map (\<lambda>(now, req). req_inventory_name req) reqs"
    using assms(2)
  proof (induction reqs arbitrary: disk)
    case Nil
    then show ?case by simp
  next
    case (Cons r reqs)
    obtain now req where r: "r = (now, req)" by (cases r)
    from Cons.prems r obtain name where
      name: "req_inventory_name req = Some (Str name)" "\<not> list_all is_ws name"
      and fl: "case req_file req of None \<Rightarrow> True | Some f \<Rightarrow> filename f \<noteq> INVENTORY_FILE"
      by (auto split: option.splits jsval.splits)
    let ?disk' = "snd (post_register J now req disk)"
    obtain new where new: "loadInventory J ?disk' = loadInventory J disk @ [new]"
      "item_id new = String_of now" "inventory_name new = name"
      using post_register_appends [OF assms(1) name fl] by blast
    from Cons.prems have "list_all (\<lambda>(now, req).
           (case req_inventory_name req of Some (Str name) \<Rightarrow> \<not> list_all is_ws name | _ \<Rightarrow> False) \<and>
           (case req_file req of None \<Rightarrow> True | Some f \<Rightarrow> filename f \<noteq> INVENTORY_FILE)) reqs"
      by simp
    from Cons.IH [OF this, of ?disk'] obtain news where
      news: "loadInventory J (register_all J reqs ?disk') = loadInventory J ?disk' @ news"
      "map item_id news = map (\<lambda>(now, req). String_of now) reqs"
      "map (\<lambda>new. Some (Str (inventory_name new))) news = map (\<lambda>(now, req). req_inventory_name req) reqs"
      by blast
    have "loadInventory J (register_all J (r # reqs) disk) = loadInventory J disk @ (new # news)"
      using news(1) new(1) by (simp add: r)
    moreover have "map item_id (new # news) = map (\<lambda>(now, req). String_of now) (r # reqs)"
      using news(2) new(2) by (simp add: r)
    moreover have "map (\<lambda>new. Some (Str (inventory_name new))) (new # news) =
        map (\<lambda>(now, req). req_inventory_name req) (r # reqs)"
      using news(3) new(3) name(1) by (simp add: r)
    ultimately show ?case by blast
  qed
  then obtain news where news: "loadInventory J (register_all J reqs disk) = loadInventory J disk @ news"
      "map item_id news = map (\<lambda>(now, req). String_of now) reqs"
      "map (\<lambda>new. Some (Str (inventory_name new))) news = map (\<lambda>(now, req). req_inventory_name req) reqs"
    by blast
  have len: "length news = length reqs"
    using news(2) by (metis length_map)
  have e: "map (\<lambda>(now, req). String_of now) reqs = map String_of (map fst reqs)"
    by (simp add: case_prod_unfold)
  have "inj_on String_of (set (map fst reqs))"
    using String_of_inj by (rule inj_onI)
  then have "distinct (map String_of (map fst reqs))"
    using assms(3) by (simp only: distinct_map)
  then have "distinct (map item_id news)"
    by (simp only: news(2) e)
  then show ?thesis
    using news len by blast
qed


lemma register_nails:
  "post_register JSON 1700000000009 nails_req disk =
     (Response 201 (ItemBody nails), saveInventory JSON (loadInventory JSON disk @ [nails]) disk)"
proof -
  have n: "newItem (String_of 1700000000009) ''Nails'' (req_description nails_req) (req_file nails_req) = nails"
    by (simp add: newItem_def nails_req_def nails_def or_empty_def String_of_examples)
  have "req_inventory_name nails_req = Some (Str ''Nails'')"
    by (simp add: nails_req_def)
  then show ?thesis
    using register_handler_accepts [of nails_req "''Nails''" JSON 1700000000009 disk]
    by (simp add: post_register_def n trim_examples) (simp add: upload_single_def nails_req_def)
qed

lemma register_hammer:
  "post_register JSON 1700000000007 hammer_req disk =
     (Response 201 (ItemBody hammer), saveInventory JSON (loadInventory JSON disk @ [hammer]) disk)"
proof -
  have "req_inventory_name hammer_req = Some (Str ''Hammer'')"
    by (simp add: hammer_req_def)
  then show ?thesis
    using register_handler_accepts [of hammer_req "''Hammer''" JSON 1700000000007 disk]
    by (simp add: post_register_def trim_Hammer) (simp add: upload_single_def hammer_req_def hammer_eq)
qed

text \<open>The amended claim for the hammer and the nails, registered in this order into an empty
  cache directory.\<close>

theorem serial_registers_keep_all_witness:
  "roundtrip JSON \<and>
   req_inventory_name hammer_req = Some (Str ''Hammer'') \<and> \<not> list_all is_ws ''Hammer'' \<and>
   req_inventory_name nails_req = Some (Str ''Nails'') \<and> \<not> list_all is_ws ''Nails'' \<and>
   distinct (map fst [(1700000000007 :: nat, hammer_req), (1700000000009, nails_req)]) \<and>
   register_all JSON [(1700000000007, hammer_req), (1700000000009, nails_req)] Map.empty =
     [INVENTORY_FILE \<mapsto> stringify JSON [hammer, nails]] \<and>
   (\<exists>news. loadInventory JSON
              (register_all JSON [(1700000000007, hammer_req), (1700000000009, nails_req)] Map.empty) =
            loadInventory JSON Map.empty @ news \<and>
            length news = 2 \<and>
            map item_id news = [''1700000000007'', ''1700000000009''] \<and>
            distinct (map item_id news))"
proof -
  let ?reqs = "[(1700000000007 :: nat, hammer_req), (1700000000009, nails_req)]"
  have names: "req_inventory_name hammer_req = Some (Str ''Hammer'') \<and> \<not> list_all is_ws ''Hammer'' \<and>
     req_inventory_name nails_req = Some (Str ''Nails'') \<and> \<not> list_all is_ws ''Nails''"
    by (simp add: hammer_req_def nails_req_def is_ws_def)
  have h2: "list_all (\<lambda>(now, req).
           (case req_inventory_name req of Some (Str name) \<Rightarrow> \<not> list_all is_ws name | _ \<Rightarrow> False) \<and>
           (case req_file req of None \<Rightarrow> True | Some f \<Rightarrow> filename f \<noteq> INVENTORY_FILE)) ?reqs"
    by (simp add: hammer_req_def nails_req_def is_ws_def)
  have h3: "distinct (map fst ?reqs)"
    by simp
  have run: "register_all JSON ?reqs Map.empty = [INVENTORY_FILE \<mapsto> stringify JSON [hammer, nails]]"
    by (simp add: register_hammer register_nails loadInventory_absent load_document_only
        saveInventory_def writeFile_def)
  obtain news where news:
    "loadInventory JSON (register_all JSON ?reqs Map.empty) = loadInventory JSON Map.empty @ news"
    "length news = length ?reqs"
    "map item_id news = map (\<lambda>(now, req). String_of now) ?reqs"
    "distinct (map item_id news)"
    using serial_registers_keep_all [OF roundtrip_JSON h2 h3, of Map.empty] by blast
  have "length news = 2" "map item_id news = [''1700000000007'', ''1700000000009'']"
    using news(2,3) by (simp_all add: String_of_examples)
  then have ex: "\<exists>news. loadInventory JSON (register_all JSON ?reqs Map.empty) =
            loadInventory JSON Map.empty @ news \<and>
            length news = 2 \<and>
            map item_id news = [''1700000000007'', ''1700000000009''] \<and>
            distinct (map item_id news)"
    using news(1,4) by (intro exI [of _ news] conjI)
  from names have n1: "req_inventory_name hammer_req = Some (Str ''Hammer'')"
    and n2: "\<not> list_all is_ws ''Hammer''"
    and n3: "req_inventory_name nails_req = Some (Str ''Nails'')"
    and n4: "\<not> list_all is_ws ''Nails''"
    by blast+
  show ?thesis
    using roundtrip_JSON n1 n2 n3 n4 h3 run ex by (intro conjI)
qed

text \<open>Against claim C9 as stated: the hammer and the nails are registered into an empty cache
  directory, the segments running in the order load, load, save, save, at different values of
  \<^verbatim>\<open>Date.now()\<close>. Both requests answer 201; the document holds the nails alone.\<close>

theorem overlapping_registers_lose_an_item:
  "run JSON [(0, 1700000000006), (1, 1700000000006), (0, 1700000000007), (1, 1700000000009)]
     ([Start hammer_req, Start nails_req], Map.empty) =
     ([Done (Response 201 (ItemBody hammer)), Done (Response 201 (ItemBody nails))],
      [INVENTORY_FILE \<mapsto> stringify JSON [nails]]) \<and>
   loadInventory JSON [INVENTORY_FILE \<mapsto> stringify JSON [nails]] = [nails] \<and>
   length [nails] < 2 \<and>
   hammer \<notin> set [nails]"
proof -
  have l0: "loadInventory JSON Map.empty = []"
    by (simp add: loadInventory_absent)
  have h: "newItem ''1700000000007'' ''Hammer'' (req_description hammer_req) (req_file hammer_req) = hammer"
    by (simp add: newItem_def hammer_req_def hammer_def or_empty_def)
  have n: "newItem ''1700000000009'' ''Nails'' (req_description nails_req) (req_file nails_req) = nails"
    by (simp add: newItem_def nails_req_def nails_def or_empty_def)
  have s1: "register_step JSON now (Start hammer_req) disk =
      (Loaded hammer_req ''Hammer'' (loadInventory JSON disk), disk)" for now disk
    by (simp add: hammer_req_def trim_Hammer)
  have s2: "register_step JSON now (Start nails_req) disk =
      (Loaded nails_req ''Nails'' (loadInventory JSON disk), disk)" for now disk
    by (simp add: nails_req_def trim_examples)
  have r: "run JSON [(0, 1700000000006), (1, 1700000000006), (0, 1700000000007), (1, 1700000000009)]
     ([Start hammer_req, Start nails_req], Map.empty) =
     ([Done (Response 201 (ItemBody hammer)), Done (Response 201 (ItemBody nails))],
      [INVENTORY_FILE \<mapsto> stringify JSON [nails]])"
    by (simp add: s1 s2 l0 h n String_of_examples saveInventory_def writeFile_def
        del: register_step.simps(1))
  show ?thesis
    using r load_document_only [of "[nails]"] by (simp add: hammer_def nails_def)
qed

end
